theory Spec2Isabelle
  imports Main "HOL-Library.Word"
begin

unbundle bit_operations_syntax

section \<open>Data model of the sniffer (ddsniff.go)\<close>

text \<open>
  Go's fixed-width integers are words: \<open>uint8\<close>, \<open>uint16\<close>, \<open>uint32\<close>, \<open>uint64\<close> are read with
  \<open>unat\<close>; \<open>int\<close>, \<open>int64\<close> and \<open>time.Duration\<close> are 64-bit two's complement values read
  with \<open>sint\<close>. Conversions between widths are \<open>ucast\<close>.
\<close>

type_synonym u8 = "8 word"
type_synonym u16 = "16 word"
type_synonym u32 = "32 word"
type_synonym u64 = "64 word"
type_synonym i64 = "64 word"

subsection \<open>Decoded layers, as the capture library hands them over\<close>

text \<open>
  \<open>handlePacket\<close> starts with \<open>DecodeLayers\<close> of the external decoder, which fills
  \<open>d.decoder.ip4\<close>, \<open>d.decoder.tcp\<close> and the list \<open>d.decoder.decoded\<close>, or returns an error.
  The decoder is not part of the repository; a packet is modelled by what the decoder
  delivers for it. The layer types are those registered in \<open>NewDatadogDecoder\<close>.
\<close>

datatype LayerType =
    LayerTypeEthernet
  | LayerTypeDot1Q
  | LayerTypeIPv4
  | LayerTypeIPv6
  | LayerTypeIPv6ExtensionSkipper
  | LayerTypeTCP
  | LayerTypePayload

text \<open>An IPv4 address: the four bytes \<open>data[12:16]\<close> or \<open>data[16:20]\<close> of the IPv4 header.\<close>

datatype IP = IPv4Addr u8 u8 u8 u8

record IPv4 =
  SrcIP :: IP
  DstIP :: IP
  Length :: u16
  IHL :: u8

record TCPOption =
  OptionType :: u8
  OptionLength :: u8
  OptionData :: "u8 list"

record TCP =
  SrcPort :: u16
  DstPort :: u16
  Seq :: u32
  Ack :: u32
  DataOffset :: u8
  FIN :: bool
  ACK :: bool
  Options :: "TCPOption list"

text \<open>
  One captured packet: the outcome of \<open>DecodeLayers\<close> (\<open>decode_err\<close> is \<open>err != nil\<close>), the
  decoded layers and \<open>ci.Timestamp.UnixNano()\<close>.
\<close>

record packet =
  decode_err :: bool
  decoded :: "LayerType list"
  ip4 :: IPv4
  tcp :: TCP
  Timestamp :: i64

subsection \<open>Strings of the flow key\<close>

text \<open>\<open>strconv.Itoa\<close> on a non-negative value: decimal digits, most significant first.\<close>

definition digit_char :: "nat \<Rightarrow> char" where
  "digit_char n = ''0123456789'' ! n"

function Itoa :: "nat \<Rightarrow> string" where
  "Itoa n = (if n < 10 then [digit_char n] else Itoa (n div 10) @ [digit_char (n mod 10)])"
  by pat_completeness auto
termination
  by (relation "measure (\<lambda>n. n)") auto

declare Itoa.simps [simp del]

text \<open>\<open>net.IP.String\<close> of a four-byte address: dotted decimal.\<close>

fun IP_String :: "IP \<Rightarrow> string" where
  "IP_String (IPv4Addr a b c e) =
     Itoa (unat a) @ ''.'' @ Itoa (unat b) @ ''.'' @ Itoa (unat c) @ ''.'' @ Itoa (unat e)"

text \<open>\<open>net.JoinHostPort\<close>: the host is bracketed when it holds a colon or a percent sign.\<close>

definition JoinHostPort :: "string \<Rightarrow> string \<Rightarrow> string" where
  "JoinHostPort host port =
     (if CHR '':'' \<in> set host \<or> CHR ''%'' \<in> set host
      then ''['' @ host @ '']:'' @ port
      else host @ '':'' @ port)"

subsection \<open>TCP timestamp option\<close>

text \<open>
  \<open>readUint32\<close>: \<open>binary.Read\<close> of a big-endian \<open>uint32\<close> from a buffer over \<open>data\<close>. With
  fewer than four bytes the read fails, the error is dropped and the named result keeps
  its zero value.
\<close>

definition readUint32 :: "u8 list \<Rightarrow> u32" where
  "readUint32 data =
     (if length data < 4 then 0
      else push_bit 24 (ucast (data ! 0)) OR push_bit 16 (ucast (data ! 1))
           OR push_bit 8 (ucast (data ! 2)) OR ucast (data ! 3))"

text \<open>
  \<open>GetTimestamps\<close> returns \<open>(ts, tsecr, err)\<close> for the first option of type 8, and
  \<open>(0, 0, error)\<close> when there is none. The result here is \<open>Some (ts, tsecr, err \<noteq> nil)\<close>, and
  \<open>None\<close> is a run-time panic: \<open>OptionData[4:]\<close> panics when the option carries fewer than
  four data bytes (\<open>OptionData[:4]\<close> before it panics or not depending on the capacity of
  the slice, so the function panics in either case).
\<close>

fun GetTimestamps_opts :: "TCPOption list \<Rightarrow> (u32 \<times> u32 \<times> bool) option" where
  "GetTimestamps_opts [] = Some (0, 0, True)"
| "GetTimestamps_opts (opt # rest) =
     (if OptionType opt = 8
      then (if length (OptionData opt) < 4 then None
            else Some (readUint32 (take 4 (OptionData opt)),
                       readUint32 (drop 4 (OptionData opt)), False))
      else GetTimestamps_opts rest)"

definition GetTimestamps :: "TCP \<Rightarrow> (u32 \<times> u32 \<times> bool) option" where
  "GetTimestamps t = GetTimestamps_opts (Options t)"

subsection \<open>Flow records\<close>

text \<open>
  \<open>TCPAccounting\<close> and its methods are declared outside \<open>ddsniff.go\<close> and \<open>reporter.go\<close>; the
  fields below are the ones \<open>handlePacket\<close> and \<open>Report\<close> read and write, with the types
  their uses fix: \<open>Timed\<close> is a map from \<open>TCPKey\<close> to \<open>int64\<close>, \<open>Seen\<close> a map from \<open>uint32\<close>
  to \<open>bool\<close>, \<open>Last\<close> and \<open>Sampled\<close> are \<open>uint64\<close>. A \<open>TCPKey\<close> is the pair \<open>(TS, Seq)\<close>.
  The statistics that only the methods \<open>CalcSRTT\<close>, \<open>CalcJitter\<close>, \<open>MaxRTT\<close> and \<open>MinRTT\<close>
  write are kept together in \<open>stats\<close>.
\<close>

type_synonym TCPKey = "u32 \<times> u32"

record rtt_stats =
  SRTT :: u64
  Jitter :: u64
  Max_rtt :: u64
  Min_rtt :: u64

text \<open>
  Modelled from the spec: \<open>Alive\<close>, the record's expiry timer (``a resettable, self-firing
  timer; on fire, posts this record's key''). Its declaration is with that of the record.
  The model keeps the duration the timer was last armed with; \<open>SetExpiration\<close> and
  \<open>Alive.Reset\<close> both arm it.
\<close>

record TCPAccounting =
  Src :: IP
  Dst :: IP
  Sport :: u16
  Dport :: u16
  stats :: rtt_stats
  Last :: u64
  Timed :: "TCPKey \<rightharpoonup> i64"
  Seen :: "u32 \<rightharpoonup> bool"
  Sampled :: u64
  Done :: bool
  Alive :: i64

text \<open>
  The estimator methods of \<open>TCPAccounting\<close> are parameters of the model, so that what is
  proved holds for every estimator. As the specification describes them (smoothing of
  the RTT, jitter from the deviation, running maximum and minimum), each maps the sample,
  the \<open>Soften\<close> flag and the statistics to the new statistics and writes nothing else.
  \<open>NewStats\<close> are the statistics of a record fresh from \<open>NewTCPAccounting\<close>.
\<close>

record estimator =
  CalcSRTT :: "u64 \<Rightarrow> bool \<Rightarrow> rtt_stats \<Rightarrow> rtt_stats"
  CalcJitter :: "u64 \<Rightarrow> bool \<Rightarrow> rtt_stats \<Rightarrow> rtt_stats"
  MaxRTT :: "u64 \<Rightarrow> rtt_stats \<Rightarrow> rtt_stats"
  MinRTT :: "u64 \<Rightarrow> rtt_stats \<Rightarrow> rtt_stats"
  NewStats :: rtt_stats

text \<open>
  Modelled from the spec: \<open>NewTCPAccounting\<close>, whose body is with the record's declaration.
  A new record takes its identity from the arguments, has empty \<open>pendingSends\<close> and
  \<open>acknowledged\<close> tables, no sample, \<open>done\<close> false, and its timer armed to the idle timeout.
\<close>

definition NewTCPAccounting ::
  "estimator \<Rightarrow> IP \<Rightarrow> IP \<Rightarrow> u16 \<Rightarrow> u16 \<Rightarrow> i64 \<Rightarrow> TCPAccounting" where
  "NewTCPAccounting est src dst sport dport d =
     \<lparr>Src = src, Dst = dst, Sport = sport, Dport = dport, stats = NewStats est, Last = 0,
      Timed = Map.empty, Seen = Map.empty, Sampled = 0, Done = False, Alive = d\<rparr>"

text \<open>
  Modelled from the spec: \<open>SetExpiration\<close>, whose body is with the record's declaration. It
  arms the record's timer to fire after the given duration; the key it posts is the
  record's own.
\<close>

definition SetExpiration :: "i64 \<Rightarrow> TCPAccounting \<Rightarrow> TCPAccounting" where
  "SetExpiration duration flow = flow\<lparr>Alive := duration\<rparr>"

text \<open>\<open>flow.Alive.Reset(d)\<close> of the standard library: the timer expires after \<open>d\<close> from now.\<close>

definition Alive_Reset :: "i64 \<Rightarrow> TCPAccounting \<Rightarrow> TCPAccounting" where
  "Alive_Reset duration flow = flow\<lparr>Alive := duration\<rparr>"

text \<open>Reading a Go map: a missing key reads as the zero value, and is not inserted.\<close>

definition Timed_at :: "TCPAccounting \<Rightarrow> TCPKey \<Rightarrow> i64" where
  "Timed_at flow t = (case Timed flow t of None \<Rightarrow> 0 | Some v \<Rightarrow> v)"

definition Seen_at :: "TCPAccounting \<Rightarrow> u32 \<Rightarrow> bool" where
  "Seen_at flow a = (case Seen flow a of None \<Rightarrow> False | Some b \<Rightarrow> b)"

subsection \<open>The sniffer\<close>

text \<open>
  The fields of \<open>DatadogSniffer\<close> that \<open>handlePacket\<close> uses. \<open>hostIPs\<close> is the map read through
  its lookup; \<open>flows\<close> is the table of \<open>FlowMap\<close>, from flow key to record. The table holds
  pointers: a record changed through the pointer is changed in the table, so the model
  stores the record back under its key.
\<close>

record DatadogSniffer =
  ExpTTL :: i64
  IdleTTL :: i64
  Soften :: bool
  hostIPs :: "string \<Rightarrow> bool"
  flows :: "string \<rightharpoonup> TCPAccounting"

section \<open>handlePacket\<close>

definition ourIP :: "DatadogSniffer \<Rightarrow> packet \<Rightarrow> bool" where
  "ourIP d p = hostIPs d (IP_String (SrcIP (ip4 p)))"

text \<open>Lines 153 to 164: \<open>src\<close> and \<open>dst\<close>, with the monitored side taken as the source.\<close>

definition src_dst :: "DatadogSniffer \<Rightarrow> packet \<Rightarrow> string \<times> string" where
  "src_dst d p =
     (if ourIP d p
      then (JoinHostPort (IP_String (SrcIP (ip4 p))) (Itoa (unat (SrcPort (tcp p)))),
            JoinHostPort (IP_String (DstIP (ip4 p))) (Itoa (unat (DstPort (tcp p)))))
      else (JoinHostPort (IP_String (DstIP (ip4 p))) (Itoa (unat (DstPort (tcp p)))),
            JoinHostPort (IP_String (SrcIP (ip4 p))) (Itoa (unat (SrcPort (tcp p))))))"

text \<open>The key \<open>src + "-" + dst\<close> under which the flow is looked up and added.\<close>

definition flow_key :: "DatadogSniffer \<Rightarrow> packet \<Rightarrow> string" where
  "flow_key d p = fst (src_dst d p) @ ''-'' @ snd (src_dst d p)"

text \<open>\<open>time.Duration(d.IdleTTL * int(time.Second))\<close> and the same for \<open>ExpTTL\<close>.\<close>

definition idle :: "DatadogSniffer \<Rightarrow> i64" where
  "idle d = IdleTTL d * 1000000000"

definition expTTL :: "DatadogSniffer \<Rightarrow> i64" where
  "expTTL d = ExpTTL d * 1000000000"

text \<open>
  Lines 167 to 182: the record of the packet's flow, created when the table has none
  (\<open>NewTCPAccounting\<close>, \<open>Add\<close>, \<open>SetExpiration(idle, key)\<close>), its timer reset to \<open>idle\<close>
  otherwise.
\<close>

definition get_flow :: "estimator \<Rightarrow> DatadogSniffer \<Rightarrow> packet \<Rightarrow> TCPAccounting" where
  "get_flow est d p =
     (case flows d (flow_key d p) of
        None \<Rightarrow>
          SetExpiration (idle d)
            (if ourIP d p
             then NewTCPAccounting est (SrcIP (ip4 p)) (DstIP (ip4 p))
                    (SrcPort (tcp p)) (DstPort (tcp p)) (idle d)
             else NewTCPAccounting est (DstIP (ip4 p)) (SrcIP (ip4 p))
                    (DstPort (tcp p)) (SrcPort (tcp p)) (idle d))
      | Some flow \<Rightarrow> Alive_Reset (idle d) flow)"

text \<open>Lines 184 to 194: the first FIN+ACK of a flow, when \<open>ExpTTL\<close> is positive.\<close>

definition fin_ack :: "DatadogSniffer \<Rightarrow> packet \<Rightarrow> TCPAccounting \<Rightarrow> TCPAccounting" where
  "fin_ack d p flow =
     (if 0 < sint (ExpTTL d) \<and> ACK (tcp p) \<and> FIN (tcp p) \<and> \<not> Done flow
      then SetExpiration (expTTL d) (flow\<lparr>Done := True\<rparr>)
      else flow)"

text \<open>Line 196: the payload size, a \<open>uint32\<close> difference; the sum of the header lengths is a \<open>uint8\<close>.\<close>

definition tcp_payload_sz :: "packet \<Rightarrow> u32" where
  "tcp_payload_sz p = ucast (Length (ip4 p)) - ucast ((IHL (ip4 p) + DataOffset (tcp p)) * 4)"

text \<open>Lines 217 to 223: one RTT sample enters the record.\<close>

definition add_sample :: "estimator \<Rightarrow> bool \<Rightarrow> u64 \<Rightarrow> TCPAccounting \<Rightarrow> TCPAccounting" where
  "add_sample est soften rtt flow =
     flow\<lparr>stats := MinRTT est rtt (MaxRTT est rtt
                      (CalcJitter est rtt soften (CalcSRTT est rtt soften (stats flow)))),
          Last := rtt,
          Sampled := Sampled flow + 1\<rparr>"

text \<open>
  Lines 197 to 227. The second component tells whether \<open>GetTimestamps\<close> panicked; the
  record is then as the panic leaves it.
\<close>

definition correlate ::
  "estimator \<Rightarrow> DatadogSniffer \<Rightarrow> packet \<Rightarrow> TCPAccounting \<Rightarrow> TCPAccounting \<times> bool" where
  "correlate est d p flow =
     (if ourIP d p \<and> 0 < tcp_payload_sz p then
        (case GetTimestamps (tcp p) of
           None \<Rightarrow> (flow, True)
         | Some (ts, _, _) \<Rightarrow>
             (flow\<lparr>Timed := (Timed flow)((ts, Seq (tcp p)) \<mapsto> Timestamp p)\<rparr>, False))
      else if \<not> ourIP d p then
        (case GetTimestamps (tcp p) of
           None \<Rightarrow> (flow, True)
         | Some (_, tsecr, _) \<Rightarrow>
             (if Timed_at flow (tsecr, Ack (tcp p)) \<noteq> 0 then
                (let flow' =
                   (if Seen_at flow (Ack (tcp p)) = False \<and> ACK (tcp p)
                    then add_sample est (Soften d)
                           (Timestamp p - Timed_at flow (tsecr, Ack (tcp p))) flow
                    else flow)
                 in (flow'\<lparr>Seen := (Seen flow')(Ack (tcp p) \<mapsto> True)\<rparr>, False))
              else (flow, False)))
      else (flow, False))"

text \<open>The body of \<open>case layers.LayerTypeTCP\<close> once an IPv4 layer was found: lines 152 to 228.\<close>

definition handleTCP :: "estimator \<Rightarrow> DatadogSniffer \<Rightarrow> packet \<Rightarrow> DatadogSniffer \<times> bool" where
  "handleTCP est d p =
     (let r = correlate est d p (fin_ack d p (get_flow est d p))
      in (d\<lparr>flows := (flows d)(flow_key d p \<mapsto> fst r)\<rparr>, snd r))"

datatype outcome = ReturnNil | ReturnErr | Panic

text \<open>The loop over \<open>d.decoder.decoded\<close>, lines 141 to 231, with its two flags.\<close>

fun layers_loop ::
  "estimator \<Rightarrow> packet \<Rightarrow> bool \<Rightarrow> bool \<Rightarrow> LayerType list \<Rightarrow> DatadogSniffer
     \<Rightarrow> DatadogSniffer \<times> outcome" where
  "layers_loop est p foundNetLayer foundIPv4Layer [] d = (d, ReturnNil)"
| "layers_loop est p foundNetLayer foundIPv4Layer (typ # rest) d =
     (case typ of
        LayerTypeIPv4 \<Rightarrow> layers_loop est p True True rest d
      | LayerTypeIPv6 \<Rightarrow> layers_loop est p True foundIPv4Layer rest d
      | LayerTypeTCP \<Rightarrow>
          (if foundNetLayer \<and> foundIPv4Layer
           then (case handleTCP est d p of
                   (d', True) \<Rightarrow> (d', Panic)
                 | (d', False) \<Rightarrow> layers_loop est p foundNetLayer foundIPv4Layer rest d')
           else layers_loop est p foundNetLayer foundIPv4Layer rest d)
      | _ \<Rightarrow> layers_loop est p foundNetLayer foundIPv4Layer rest d)"

definition handlePacket :: "estimator \<Rightarrow> DatadogSniffer \<Rightarrow> packet \<Rightarrow> DatadogSniffer \<times> outcome" where
  "handlePacket est d p =
     (if decode_err p then (d, ReturnErr)
      else layers_loop est p False False (decoded p) d)"

text \<open>
  \<open>SniffLive\<close> on the packets read without error, up to the one after which the tomb is
  dying: every packet goes to \<open>handlePacket\<close>, whose error is dropped. Nothing recovers from
  a panic, which ends the loop (and the process); the flag tells whether the loop came
  to its end.
\<close>

fun SniffLive :: "estimator \<Rightarrow> DatadogSniffer \<Rightarrow> packet list \<Rightarrow> DatadogSniffer \<times> bool" where
  "SniffLive est d [] = (d, True)"
| "SniffLive est d (p # ps) =
     (case handlePacket est d p of
        (d', Panic) \<Rightarrow> (d', False)
      | (d', _) \<Rightarrow> SniffLive est d' ps)"

section \<open>Observations on the flow table\<close>

text \<open>
  What the claims speak of, read off the table under a flow key: the sample count, the
  statistics, the \<open>acknowledged\<close> set and the \<open>pendingSends\<close> table of the flow. A flow that
  is not in the table has no sample, nothing acknowledged and nothing pending.
\<close>

definition sample_count :: "DatadogSniffer \<Rightarrow> string \<Rightarrow> u64" where
  "sample_count d k = (case flows d k of None \<Rightarrow> 0 | Some flow \<Rightarrow> Sampled flow)"

definition statistics :: "DatadogSniffer \<Rightarrow> string \<Rightarrow> (u64 \<times> rtt_stats \<times> u64) option" where
  "statistics d k = map_option (\<lambda>flow. (Sampled flow, stats flow, Last flow)) (flows d k)"

definition acknowledged :: "DatadogSniffer \<Rightarrow> string \<Rightarrow> u32 \<Rightarrow> bool" where
  "acknowledged d k a = (case flows d k of None \<Rightarrow> False | Some flow \<Rightarrow> Seen_at flow a)"

definition pendingSends :: "DatadogSniffer \<Rightarrow> string \<Rightarrow> TCPKey \<rightharpoonup> i64" where
  "pendingSends d k = (case flows d k of None \<Rightarrow> Map.empty | Some flow \<Rightarrow> Timed flow)"

definition pending_at :: "DatadogSniffer \<Rightarrow> string \<Rightarrow> TCPKey \<Rightarrow> i64" where
  "pending_at d k t = (case pendingSends d k t of None \<Rightarrow> 0 | Some v \<Rightarrow> v)"

definition done_flag :: "DatadogSniffer \<Rightarrow> string \<Rightarrow> bool" where
  "done_flag d k = (case flows d k of None \<Rightarrow> False | Some flow \<Rightarrow> Done flow)"

definition timer :: "DatadogSniffer \<Rightarrow> string \<Rightarrow> i64 option" where
  "timer d k = map_option Alive (flows d k)"

text \<open>
  How often the loop of \<open>handlePacket\<close> enters the TCP case with an IPv4 layer found, if
  nothing panics. The decoder yields one TCP layer for a TCP segment over IPv4.
\<close>

fun tcp_bodies :: "bool \<Rightarrow> bool \<Rightarrow> LayerType list \<Rightarrow> nat" where
  "tcp_bodies foundNetLayer foundIPv4Layer [] = 0"
| "tcp_bodies foundNetLayer foundIPv4Layer (typ # rest) =
     (case typ of
        LayerTypeIPv4 \<Rightarrow> tcp_bodies True True rest
      | LayerTypeIPv6 \<Rightarrow> tcp_bodies True foundIPv4Layer rest
      | LayerTypeTCP \<Rightarrow>
          (if foundNetLayer \<and> foundIPv4Layer then 1 else 0)
          + tcp_bodies foundNetLayer foundIPv4Layer rest
      | _ \<Rightarrow> tcp_bodies foundNetLayer foundIPv4Layer rest)"

definition tcp_over_ipv4 :: "packet \<Rightarrow> bool" where
  "tcp_over_ipv4 p \<longleftrightarrow> \<not> decode_err p \<and> tcp_bodies False False (decoded p) = 1"

section \<open>The reporting tick (reporter.go)\<close>

text \<open>
  The branch \<open>case <-ticker.C\<close> of \<open>Report\<close>, from \<open>r.flows.Lock()\<close> to \<open>r.flows.Unlock()\<close>,
  lines 136 to 183, as the sequence of what it does to the locks and of the work it does
  in between: reading a record's statistics (lines 142 to 144), submitting a metric
  (\<open>r.submit\<close>, which writes to the statsd client and to the log) and flushing a record.
\<close>

datatype event =
    TableLock
  | TableUnlock
  | RecordLock string
  | RecordUnlock string
  | ComputeStats string
  | Submit string string
  | Flush string

text \<open>
  One round of the loop over \<open>r.flows.Map\<close>. \<open>GetUnsafe\<close> is a method of \<open>FlowMap\<close>, declared
  outside \<open>reporter.go\<close>;
  \<open>k\<close> ranges over the keys of the map while the table lock is held, so it yields the
  record stored under \<open>k\<close> and \<open>e\<close> is true. \<open>last_flush\<close> is \<open>flow.LastFlush\<close>, and \<open>flush_ival\<close>
  the constant \<open>FLUSH_IVAL\<close>, both declared outside \<open>reporter.go\<close>.
\<close>

definition report_flow ::
  "bool \<Rightarrow> i64 \<Rightarrow> i64 \<Rightarrow> (string \<Rightarrow> i64) \<Rightarrow> string \<times> TCPAccounting \<Rightarrow> event list" where
  "report_flow flush now flush_ival last_flush kf =
     (case kf of (k, flow) \<Rightarrow>
        [RecordLock k]
        @ (if True \<and> 0 < Sampled flow
           then [ComputeStats k,
                 Submit k ''system.net.tcp.rtt.avg'',
                 Submit k ''system.net.tcp.rtt.jitter'',
                 Submit k ''system.net.tcp.rtt'']
           else [])
        @ (if flush \<or> sint flush_ival < sint (now - last_flush k) then [Flush k] else [])
        @ [RecordUnlock k])"

text \<open>The table is given as the list of its entries in the order the \<open>range\<close> visits them.\<close>

definition Report_tick ::
  "bool \<Rightarrow> i64 \<Rightarrow> i64 \<Rightarrow> (string \<Rightarrow> i64) \<Rightarrow> (string \<times> TCPAccounting) list \<Rightarrow> event list" where
  "Report_tick flush now flush_ival last_flush table =
     [TableLock] @ concat (map (report_flow flush now flush_ival last_flush) table) @ [TableUnlock]"

text \<open>Whether the table lock is held after a sequence of events, from a given start.\<close>

fun table_held_from :: "bool \<Rightarrow> event list \<Rightarrow> bool" where
  "table_held_from h [] = h"
| "table_held_from h (TableLock # es) = table_held_from True es"
| "table_held_from h (TableUnlock # es) = table_held_from False es"
| "table_held_from h (e # es) = table_held_from h es"

definition table_held :: "event list \<Rightarrow> bool" where
  "table_held es = table_held_from False es"

text \<open>The events between which the table lock should be free, by the specification.\<close>

fun record_work :: "event \<Rightarrow> bool" where
  "record_work TableLock = False"
| "record_work TableUnlock = False"
| "record_work _ = True"

section \<open>A flow to run the model on\<close>

text \<open>
  An estimator to run the model with. Modelled from the spec: exponential smoothing
  \<open>smoothedRTT += (rtt - smoothedRTT) / gainFactor\<close>, jitter likewise from the absolute
  deviation, and running maximum and minimum; the gain is taken as 8.
\<close>

definition ex_est :: estimator where
  "ex_est =
     \<lparr>CalcSRTT = (\<lambda>rtt soften s. s\<lparr>SRTT := SRTT s + (rtt - SRTT s) div 8\<rparr>),
      CalcJitter = (\<lambda>rtt soften s.
        s\<lparr>Jitter := Jitter s
              + ((if SRTT s \<le> rtt then rtt - SRTT s else SRTT s - rtt) - Jitter s) div 8\<rparr>),
      MaxRTT = (\<lambda>rtt s. s\<lparr>Max_rtt := max (Max_rtt s) rtt\<rparr>),
      MinRTT = (\<lambda>rtt s. s\<lparr>Min_rtt := min (Min_rtt s) rtt\<rparr>),
      NewStats = \<lparr>SRTT = 0, Jitter = 0, Max_rtt = 0, Min_rtt = 0\<rparr>\<rparr>"

text \<open>The monitored host is 10.0.0.1; the table is empty; \<open>ExpTTL\<close> is 60 and \<open>IdleTTL\<close> 300.\<close>

definition ex_sniffer :: DatadogSniffer where
  "ex_sniffer =
     \<lparr>ExpTTL = 60, IdleTTL = 300, Soften = False,
      hostIPs = (\<lambda>s. s = ''10.0.0.1''), flows = Map.empty\<rparr>"

definition hostA :: IP where
  "hostA = IPv4Addr 10 0 0 1"

definition peerB :: IP where
  "peerB = IPv4Addr 10 0 0 2"

definition ex_key :: string where
  "ex_key = ''10.0.0.1:443-10.0.0.2:5000''"

definition ts_option :: "u8 list \<Rightarrow> TCPOption" where
  "ts_option bs = \<lparr>OptionType = 8, OptionLength = of_nat (2 + length bs), OptionData = bs\<rparr>"

definition nop_option :: TCPOption where
  "nop_option = \<lparr>OptionType = 1, OptionLength = 1, OptionData = []\<rparr>"

text \<open>The usual layout of the options of a segment with timestamps: two no-ops and the option.\<close>

definition ts_options :: "u8 list \<Rightarrow> TCPOption list" where
  "ts_options bs = [nop_option, nop_option, ts_option bs]"

text \<open>Segments of the connection 10.0.0.1:443 -- 10.0.0.2:5000, from the host and from the peer.\<close>

definition ex_outbound ::
  "u16 \<Rightarrow> u8 \<Rightarrow> u32 \<Rightarrow> u32 \<Rightarrow> bool \<Rightarrow> bool \<Rightarrow> TCPOption list \<Rightarrow> i64 \<Rightarrow> packet" where
  "ex_outbound len off sq ak fin ack opts ts =
     \<lparr>decode_err = False,
      decoded = [LayerTypeEthernet, LayerTypeIPv4, LayerTypeTCP, LayerTypePayload],
      ip4 = \<lparr>SrcIP = hostA, DstIP = peerB, Length = len, IHL = 5\<rparr>,
      tcp = \<lparr>SrcPort = 443, DstPort = 5000, Seq = sq, Ack = ak, DataOffset = off,
             FIN = fin, ACK = ack, Options = opts\<rparr>,
      Timestamp = ts\<rparr>"

definition ex_inbound ::
  "u16 \<Rightarrow> u8 \<Rightarrow> u32 \<Rightarrow> u32 \<Rightarrow> bool \<Rightarrow> bool \<Rightarrow> TCPOption list \<Rightarrow> i64 \<Rightarrow> packet" where
  "ex_inbound len off sq ak fin ack opts ts =
     \<lparr>decode_err = False,
      decoded = [LayerTypeEthernet, LayerTypeIPv4, LayerTypeTCP, LayerTypePayload],
      ip4 = \<lparr>SrcIP = peerB, DstIP = hostA, Length = len, IHL = 5\<rparr>,
      tcp = \<lparr>SrcPort = 5000, DstPort = 443, Seq = sq, Ack = ak, DataOffset = off,
             FIN = fin, ACK = ack, Options = opts\<rparr>,
      Timestamp = ts\<rparr>"

text \<open>
  A data segment of 100 bytes from the host (TSval 100, Seq 1000) captured at 1 ms, its
  acknowledgment (TSecr 100, Ack 1000) captured at 6 ms, and the same acknowledgment once
  more at 7 ms.
\<close>

definition ex_out :: packet where
  "ex_out = ex_outbound 152 8 1000 1 False True (ts_options [0, 0, 0, 100, 0, 0, 0, 7]) 1000000"

definition ex_ack :: packet where
  "ex_ack = ex_inbound 52 8 1 1000 False True (ts_options [0, 0, 0, 8, 0, 0, 0, 100]) 6000000"

definition ex_dup :: packet where
  "ex_dup = ex_inbound 52 8 1 1000 False True (ts_options [0, 0, 0, 9, 0, 0, 0, 100]) 7000000"

definition ex_after_out :: DatadogSniffer where
  "ex_after_out = fst (handlePacket ex_est ex_sniffer ex_out)"

definition ex_after_ack :: DatadogSniffer where
  "ex_after_ack = fst (handlePacket ex_est ex_after_out ex_ack)"

text \<open>The acknowledgment of \<open>ex_out\<close>, with a capture timestamp before that of the data segment.\<close>

definition ex_early :: packet where
  "ex_early = ex_inbound 52 8 1 1000 False True (ts_options [0, 0, 0, 8, 0, 0, 0, 100]) 400000"

text \<open>The same data segment and acknowledgment without any TCP option.\<close>

definition ex_out_plain :: packet where
  "ex_out_plain = ex_outbound 140 5 1000 1 False True [] 1000000"

definition ex_ack_plain :: packet where
  "ex_ack_plain = ex_inbound 40 5 1 1000 False True [] 6000000"

text \<open>
  The close of the connection: a FIN+ACK segment from the host at 8 ms and the peer's
  acknowledgment of it at 9 ms.
\<close>

definition ex_fin :: packet where
  "ex_fin = ex_outbound 52 8 1100 1 True True (ts_options [0, 0, 0, 120, 0, 0, 0, 8]) 8000000"

definition ex_last_ack :: packet where
  "ex_last_ack = ex_inbound 52 8 1 1101 False True (ts_options [0, 0, 0, 10, 0, 0, 0, 120]) 9000000"

definition ex_after_fin :: DatadogSniffer where
  "ex_after_fin = fst (handlePacket ex_est ex_after_ack ex_fin)"

text \<open>
  A segment from the peer whose timestamp option has length 2, that is, no data: the
  decoder accepts any option length from 2 up to the bytes that remain.
\<close>

definition ex_malformed :: packet where
  "ex_malformed = ex_inbound 44 6 1 1000 False True
     [\<lparr>OptionType = 8, OptionLength = 2, OptionData = []\<rparr>, nop_option, nop_option] 2000000"

text \<open>
  A segment from the host whose IPv4 total length, 40, is less than the 20 and 60 bytes
  its two header-length fields announce.
\<close>

definition ex_wrapped :: packet where
  "ex_wrapped = ex_outbound 40 15 3000 1 False True
     (ts_options [0, 0, 0, 130, 0, 0, 0, 9]) 3000000"

text \<open>
  A reporting tick over a table that holds the example flow with its one sample; no
  flush is due.
\<close>

definition ex_record :: TCPAccounting where
  "ex_record =
     \<lparr>Src = hostA, Dst = peerB, Sport = 443, Dport = 5000,
      stats = \<lparr>SRTT = 625000, Jitter = 546875, Max_rtt = 5000000, Min_rtt = 0\<rparr>,
      Last = 5000000,
      Timed = [(100, 1000) \<mapsto> 1000000], Seen = [1000 \<mapsto> True], Sampled = 1, Done = False,
      Alive = 300000000000\<rparr>"

definition ex_tick :: "event list" where
  "ex_tick = Report_tick False 1700000030 3600 (\<lambda>k. 1700000000) [(ex_key, ex_record)]"

section \<open>The loop and its body\<close>

lemma handleTCP_config:
  "hostIPs (fst (handleTCP est d p)) = hostIPs d"
  "ExpTTL (fst (handleTCP est d p)) = ExpTTL d"
  "IdleTTL (fst (handleTCP est d p)) = IdleTTL d"
  "Soften (fst (handleTCP est d p)) = Soften d"
  by (simp_all add: handleTCP_def Let_def)

lemma flow_key_hostIPs: "hostIPs d' = hostIPs d \<Longrightarrow> flow_key d' p = flow_key d p"
  by (simp add: flow_key_def src_dst_def ourIP_def)

lemma ourIP_hostIPs: "hostIPs d' = hostIPs d \<Longrightarrow> ourIP d' p = ourIP d p"
  by (simp add: ourIP_def)

lemma handleTCP_other:
  "k \<noteq> flow_key d p \<Longrightarrow> flows (fst (handleTCP est d p)) k = flows d k"
  by (simp add: handleTCP_def Let_def)

lemma handleTCP_flow:
  "flows (fst (handleTCP est d p)) (flow_key d p)
     = Some (fst (correlate est d p (fin_ack d p (get_flow est d p))))"
  by (simp add: handleTCP_def Let_def)

lemma layers_loop_preserves:
  assumes step: "\<And>d. P d \<Longrightarrow> P (fst (handleTCP est d p))"
  shows "P d \<Longrightarrow> P (fst (layers_loop est p a b ls d))"
proof (induction ls arbitrary: a b d)
  case Nil
  then show ?case by simp
next
  case (Cons ty rest)
  show ?case
  proof (cases ty)
    case LayerTypeTCP
    show ?thesis
    proof (cases "a \<and> b")
      case True
      obtain d' pan where h: "handleTCP est d p = (d', pan)" by (cases "handleTCP est d p")
      have "P d'" using step [OF Cons.prems] h by simp
      then show ?thesis using True LayerTypeTCP h Cons.IH [of d' a b]
        by (cases pan) simp_all
    next
      case False
      then show ?thesis using LayerTypeTCP Cons by auto
    qed
  qed (use Cons in simp_all)
qed

lemma handlePacket_preserves:
  assumes "\<And>d. P d \<Longrightarrow> P (fst (handleTCP est d p))" and "P d"
  shows "P (fst (handlePacket est d p))"
  using assms layers_loop_preserves [of P est p d]
  by (simp add: handlePacket_def)

lemma layers_loop_none:
  "tcp_bodies a b ls = 0 \<Longrightarrow> layers_loop est p a b ls d = (d, ReturnNil)"
proof (induction ls arbitrary: a b)
  case Nil then show ?case by simp
next
  case (Cons ty rest)
  then show ?case by (cases ty) (auto split: if_splits)
qed

lemma layers_loop_single:
  "tcp_bodies a b ls = 1 \<Longrightarrow>
   layers_loop est p a b ls d
     = (fst (handleTCP est d p), if snd (handleTCP est d p) then Panic else ReturnNil)"
proof (induction ls arbitrary: a b)
  case Nil then show ?case by simp
next
  case (Cons ty rest)
  show ?case
  proof (cases ty)
    case LayerTypeTCP
    show ?thesis
    proof (cases "a \<and> b")
      case True
      then have "tcp_bodies a b rest = 0" using Cons.prems LayerTypeTCP by simp
      then show ?thesis using True LayerTypeTCP
        by (cases "handleTCP est d p") (auto simp: layers_loop_none)
    next
      case False
      then show ?thesis using LayerTypeTCP Cons by auto
    qed
  qed (use Cons in simp_all)
qed

lemma handlePacket_single:
  "tcp_over_ipv4 p \<Longrightarrow>
   handlePacket est d p
     = (fst (handleTCP est d p), if snd (handleTCP est d p) then Panic else ReturnNil)"
  by (simp add: handlePacket_def tcp_over_ipv4_def layers_loop_single)


subsection \<open>What one TCP body does to the record of its flow\<close>

lemma get_flow_fields:
  "flows d (flow_key d p) = Some flow \<Longrightarrow> Seen (get_flow est d p) = Seen flow"
  "flows d (flow_key d p) = Some flow \<Longrightarrow> Timed (get_flow est d p) = Timed flow"
  "flows d (flow_key d p) = Some flow \<Longrightarrow> Sampled (get_flow est d p) = Sampled flow"
  "flows d (flow_key d p) = Some flow \<Longrightarrow> stats (get_flow est d p) = stats flow"
  "flows d (flow_key d p) = Some flow \<Longrightarrow> Last (get_flow est d p) = Last flow"
  "flows d (flow_key d p) = Some flow \<Longrightarrow> Done (get_flow est d p) = Done flow"
  by (simp_all add: get_flow_def Alive_Reset_def)

lemma get_flow_new:
  "flows d (flow_key d p) = None \<Longrightarrow> Seen (get_flow est d p) = Map.empty"
  "flows d (flow_key d p) = None \<Longrightarrow> Timed (get_flow est d p) = Map.empty"
  "flows d (flow_key d p) = None \<Longrightarrow> Sampled (get_flow est d p) = 0"
  "flows d (flow_key d p) = None \<Longrightarrow> Done (get_flow est d p) = False"
  by (simp_all add: get_flow_def SetExpiration_def NewTCPAccounting_def)

lemma get_flow_Alive: "Alive (get_flow est d p) = idle d"
  by (simp add: get_flow_def SetExpiration_def Alive_Reset_def split: option.splits)

lemma fin_ack_fields:
  "Seen (fin_ack d p flow) = Seen flow"
  "Timed (fin_ack d p flow) = Timed flow"
  "Sampled (fin_ack d p flow) = Sampled flow"
  "stats (fin_ack d p flow) = stats flow"
  "Last (fin_ack d p flow) = Last flow"
  by (simp_all add: fin_ack_def SetExpiration_def)

lemma fin_ack_Done:
  "Done (fin_ack d p flow) \<longleftrightarrow> Done flow \<or> (0 < sint (ExpTTL d) \<and> ACK (tcp p) \<and> FIN (tcp p))"
  by (auto simp: fin_ack_def SetExpiration_def)

lemma fin_ack_Alive:
  "Alive (fin_ack d p flow)
     = (if 0 < sint (ExpTTL d) \<and> ACK (tcp p) \<and> FIN (tcp p) \<and> \<not> Done flow
        then expTTL d else Alive flow)"
  by (simp add: fin_ack_def SetExpiration_def)

lemma Seen_at_simps:
  "Seen_at (flow'\<lparr>Seen := (Seen flow)(a \<mapsto> True)\<rparr>) b \<longleftrightarrow> b = a \<or> Seen_at flow b"
  "Seen_at (flow\<lparr>Timed := m\<rparr>) = Seen_at flow"
  "Seen_at (add_sample est soften rtt flow) = Seen_at flow"
  by (auto simp: Seen_at_def add_sample_def fun_eq_iff)

lemma Seen_at_fields: "Seen flow' = Seen flow \<Longrightarrow> Seen_at flow' = Seen_at flow"
  by (simp add: Seen_at_def fun_eq_iff)

lemma Timed_at_fields: "Timed flow' = Timed flow \<Longrightarrow> Timed_at flow' = Timed_at flow"
  by (simp add: Timed_at_def fun_eq_iff)

lemma add_sample_fields:
  "Timed (add_sample est soften rtt flow) = Timed flow"
  "Seen (add_sample est soften rtt flow) = Seen flow"
  "Done (add_sample est soften rtt flow) = Done flow"
  "Alive (add_sample est soften rtt flow) = Alive flow"
  "Sampled (add_sample est soften rtt flow) = Sampled flow + 1"
  "Last (add_sample est soften rtt flow) = rtt"
  by (simp_all add: add_sample_def)

text \<open>The branches of the correlation, one equation each.\<close>

lemma correlate_panic:
  "GetTimestamps (tcp p) = None \<Longrightarrow> ourIP d p \<longrightarrow> 0 < tcp_payload_sz p
     \<Longrightarrow> correlate est d p flow = (flow, True)"
  by (auto simp: correlate_def)

lemma correlate_no_payload:
  "ourIP d p \<Longrightarrow> \<not> 0 < tcp_payload_sz p \<Longrightarrow> correlate est d p flow = (flow, False)"
  by (simp add: correlate_def)

lemma correlate_outbound:
  "ourIP d p \<Longrightarrow> 0 < tcp_payload_sz p \<Longrightarrow> GetTimestamps (tcp p) = Some (ts, tsecr, e)
     \<Longrightarrow> correlate est d p flow
           = (flow\<lparr>Timed := (Timed flow)((ts, Seq (tcp p)) \<mapsto> Timestamp p)\<rparr>, False)"
  by (simp add: correlate_def)

lemma correlate_miss:
  "\<not> ourIP d p \<Longrightarrow> GetTimestamps (tcp p) = Some (ts, tsecr, e)
     \<Longrightarrow> Timed_at flow (tsecr, Ack (tcp p)) = 0
     \<Longrightarrow> correlate est d p flow = (flow, False)"
  by (simp add: correlate_def)

lemma correlate_duplicate:
  "\<not> ourIP d p \<Longrightarrow> GetTimestamps (tcp p) = Some (ts, tsecr, e)
     \<Longrightarrow> Timed_at flow (tsecr, Ack (tcp p)) \<noteq> 0
     \<Longrightarrow> Seen_at flow (Ack (tcp p)) \<or> \<not> ACK (tcp p)
     \<Longrightarrow> correlate est d p flow
           = (flow\<lparr>Seen := (Seen flow)(Ack (tcp p) \<mapsto> True)\<rparr>, False)"
  by (auto simp: correlate_def)

lemma correlate_sample:
  "\<not> ourIP d p \<Longrightarrow> GetTimestamps (tcp p) = Some (ts, tsecr, e)
     \<Longrightarrow> Timed_at flow (tsecr, Ack (tcp p)) \<noteq> 0
     \<Longrightarrow> \<not> Seen_at flow (Ack (tcp p)) \<Longrightarrow> ACK (tcp p)
     \<Longrightarrow> correlate est d p flow
           = ((add_sample est (Soften d) (Timestamp p - Timed_at flow (tsecr, Ack (tcp p))) flow)
                \<lparr>Seen := (Seen flow)(Ack (tcp p) \<mapsto> True)\<rparr>, False)"
  by (simp add: correlate_def Let_def add_sample_fields)

lemma correlate_cases [case_names panic no_payload outbound miss duplicate sample]:
  obtains
    "correlate est d p flow = (flow, True)"
  | "ourIP d p" "correlate est d p flow = (flow, False)"
  | ts where "ourIP d p"
      "correlate est d p flow
         = (flow\<lparr>Timed := (Timed flow)((ts, Seq (tcp p)) \<mapsto> Timestamp p)\<rparr>, False)"
  | "\<not> ourIP d p" "correlate est d p flow = (flow, False)"
  | "\<not> ourIP d p"
      "correlate est d p flow = (flow\<lparr>Seen := (Seen flow)(Ack (tcp p) \<mapsto> True)\<rparr>, False)"
  | rtt where "\<not> ourIP d p" "\<not> Seen_at flow (Ack (tcp p))"
      "correlate est d p flow
         = ((add_sample est (Soften d) rtt flow)\<lparr>Seen := (Seen flow)(Ack (tcp p) \<mapsto> True)\<rparr>,
            False)"
proof (cases "GetTimestamps (tcp p)")
  case None
  show ?thesis
  proof (cases "ourIP d p \<and> \<not> 0 < tcp_payload_sz p")
    case True
    then show ?thesis using that(2) correlate_no_payload by blast
  next
    case False
    then show ?thesis using that(1) correlate_panic [OF None] by blast
  qed
next
  case (Some r)
  obtain ts tsecr e where r: "GetTimestamps (tcp p) = Some (ts, tsecr, e)"
    using Some by (cases r) auto
  show ?thesis
  proof (cases "ourIP d p")
    case True
    then show ?thesis
      using that(2) that(3) correlate_no_payload correlate_outbound [OF True _ r]
      by (cases "0 < tcp_payload_sz p") blast+
  next
    case inb: False
    show ?thesis
    proof (cases "Timed_at flow (tsecr, Ack (tcp p)) = 0")
      case True
      then show ?thesis using that(4) inb correlate_miss [OF inb r] by blast
    next
      case nz: False
      show ?thesis
      proof (cases "Seen_at flow (Ack (tcp p)) \<or> \<not> ACK (tcp p)")
        case True
        then show ?thesis using that(5) inb correlate_duplicate [OF inb r nz] by blast
      next
        case False
        then show ?thesis using that(6) inb correlate_sample [OF inb r nz] by blast
      qed
    qed
  qed
qed

lemma correlate_Done_Alive:
  "Done (fst (correlate est d p flow)) = Done flow"
  "Alive (fst (correlate est d p flow)) = Alive flow"
  by (cases rule: correlate_cases [of est d p flow]; simp add: add_sample_fields)+

lemma correlate_Seen_mono:
  "Seen_at flow a \<Longrightarrow> Seen_at (fst (correlate est d p flow)) a"
  by (cases rule: correlate_cases [of est d p flow]) (simp_all add: Seen_at_simps)

lemma correlate_seen_no_sample:
  assumes "Seen_at flow (Ack (tcp p))"
  shows "Sampled (fst (correlate est d p flow)) = Sampled flow"
    and "stats (fst (correlate est d p flow)) = stats flow"
    and "Last (fst (correlate est d p flow)) = Last flow"
  using assms
  by (cases rule: correlate_cases [of est d p flow]; simp)+

lemma correlate_sampled_seen:
  "Sampled (fst (correlate est d p flow)) \<noteq> Sampled flow
     \<Longrightarrow> Seen_at (fst (correlate est d p flow)) (Ack (tcp p))"
  by (cases rule: correlate_cases [of est d p flow]) (simp_all add: Seen_at_simps)

lemma correlate_sampled_inbound:
  "Sampled (fst (correlate est d p flow)) \<noteq> Sampled flow \<Longrightarrow> \<not> ourIP d p"
  by (cases rule: correlate_cases [of est d p flow]) simp_all

lemma correlate_inbound_Timed:
  "\<not> ourIP d p \<Longrightarrow> Timed (fst (correlate est d p flow)) = Timed flow"
  by (cases rule: correlate_cases [of est d p flow]) (simp_all add: add_sample_fields)

lemma correlate_empty_Timed:
  "Timed flow = Map.empty \<Longrightarrow> Sampled (fst (correlate est d p flow)) = Sampled flow"
  by (simp add: correlate_def Let_def Timed_at_def split: option.splits prod.splits)

subsection \<open>What one TCP body does to the table\<close>

lemma body_Seen_at:
  "flows d (flow_key d p) = Some flow
     \<Longrightarrow> Seen_at (fin_ack d p (get_flow est d p)) = Seen_at flow"
  by (rule Seen_at_fields) (simp add: fin_ack_fields get_flow_fields)

lemma handleTCP_acknowledged:
  assumes "acknowledged d k a"
  shows "acknowledged (fst (handleTCP est d p)) k a"
proof (cases "k = flow_key d p")
  case True
  obtain flow where f: "flows d (flow_key d p) = Some flow" "Seen_at flow a"
    using assms True by (auto simp: acknowledged_def split: option.splits)
  have "Seen_at (fin_ack d p (get_flow est d p)) a"
    using f by (simp add: body_Seen_at)
  then show ?thesis
    using True by (simp add: acknowledged_def handleTCP_flow correlate_Seen_mono)
next
  case False
  then show ?thesis using assms by (simp add: acknowledged_def handleTCP_other)
qed

lemma sample_count_body:
  "sample_count d (flow_key d p) = Sampled (fin_ack d p (get_flow est d p))"
  by (cases "flows d (flow_key d p)")
     (simp_all add: sample_count_def fin_ack_fields get_flow_fields get_flow_new)

lemma sample_count_after:
  "sample_count (fst (handleTCP est d p)) (flow_key d p)
     = Sampled (fst (correlate est d p (fin_ack d p (get_flow est d p))))"
  by (simp add: sample_count_def handleTCP_flow)

lemma handleTCP_sampled_acknowledged:
  assumes "sample_count (fst (handleTCP est d p)) (flow_key d p) \<noteq> sample_count d (flow_key d p)"
  shows "acknowledged (fst (handleTCP est d p)) (flow_key d p) (Ack (tcp p))"
proof -
  let ?f = "fin_ack d p (get_flow est d p)"
  have "Sampled (fst (correlate est d p ?f)) \<noteq> Sampled ?f"
    using assms unfolding sample_count_after sample_count_body [of d p est] .
  then have "Seen_at (fst (correlate est d p ?f)) (Ack (tcp p))"
    by (rule correlate_sampled_seen)
  then show ?thesis
    by (simp add: acknowledged_def handleTCP_flow)
qed

lemma handleTCP_sampled_inbound:
  assumes "sample_count (fst (handleTCP est d p)) (flow_key d p) \<noteq> sample_count d (flow_key d p)"
  shows "\<not> ourIP d p"
proof -
  let ?f = "fin_ack d p (get_flow est d p)"
  have "Sampled (fst (correlate est d p ?f)) \<noteq> Sampled ?f"
    using assms unfolding sample_count_after sample_count_body [of d p est] .
  then show ?thesis
    by (rule correlate_sampled_inbound)
qed

lemma handleTCP_statistics:
  assumes "acknowledged d (flow_key d p) (Ack (tcp p))"
  shows "statistics (fst (handleTCP est d p)) k = statistics d k"
proof (cases "k = flow_key d p")
  case True
  obtain flow where f: "flows d (flow_key d p) = Some flow" "Seen_at flow (Ack (tcp p))"
    using assms by (auto simp: acknowledged_def split: option.splits)
  let ?f = "fin_ack d p (get_flow est d p)"
  have s: "Seen_at ?f (Ack (tcp p))"
    using f by (simp add: body_Seen_at)
  have "Sampled ?f = Sampled flow" "stats ?f = stats flow" "Last ?f = Last flow"
    by (simp_all only: fin_ack_fields get_flow_fields [OF f(1)])
  then have "Sampled (fst (correlate est d p ?f)) = Sampled flow"
    "stats (fst (correlate est d p ?f)) = stats flow"
    "Last (fst (correlate est d p ?f)) = Last flow"
    by (simp_all only: correlate_seen_no_sample [OF s])
  then show ?thesis
    unfolding True statistics_def handleTCP_flow f(1) by simp
next
  case False
  then show ?thesis by (simp add: statistics_def handleTCP_other)
qed

lemma handleTCP_sample_count_other:
  "k \<noteq> flow_key d p \<Longrightarrow> sample_count (fst (handleTCP est d p)) k = sample_count d k"
  by (simp add: sample_count_def handleTCP_other)

subsection \<open>Packets and runs\<close>

lemma handlePacket_hostIPs: "hostIPs (fst (handlePacket est d p)) = hostIPs d"
  by (rule handlePacket_preserves [where P = "\<lambda>d'. hostIPs d' = hostIPs d"])
     (simp_all add: handleTCP_config)

lemma handlePacket_acknowledged:
  "acknowledged d k a \<Longrightarrow> acknowledged (fst (handlePacket est d p)) k a"
  by (rule handlePacket_preserves [where P = "\<lambda>d'. acknowledged d' k a"])
     (simp_all add: handleTCP_acknowledged)

lemma SniffLive_hostIPs: "hostIPs (fst (SniffLive est d ps)) = hostIPs d"
proof (induction ps arbitrary: d)
  case Nil then show ?case by simp
next
  case (Cons p ps)
  obtain d' out where h: "handlePacket est d p = (d', out)" by (cases "handlePacket est d p")
  have "hostIPs d' = hostIPs d" using handlePacket_hostIPs [of est d p] h by simp
  then show ?case using h Cons.IH [of d'] by (cases out) simp_all
qed

lemma SniffLive_acknowledged:
  "acknowledged d k a \<Longrightarrow> acknowledged (fst (SniffLive est d ps)) k a"
proof (induction ps arbitrary: d)
  case Nil then show ?case by simp
next
  case (Cons p ps)
  obtain d' out where h: "handlePacket est d p = (d', out)" by (cases "handlePacket est d p")
  have "acknowledged d' k a" using handlePacket_acknowledged [OF Cons.prems, of est p] h by simp
  then show ?case using h Cons.IH [of d'] by (cases out) simp_all
qed

lemma handlePacket_sampled_acknowledged:
  assumes "sample_count (fst (handlePacket est d p)) (flow_key d p) \<noteq> sample_count d (flow_key d p)"
  shows "acknowledged (fst (handlePacket est d p)) (flow_key d p) (Ack (tcp p))"
proof -
  let ?k = "flow_key d p" and ?a = "Ack (tcp p)"
  let ?P = "\<lambda>d'. hostIPs d' = hostIPs d
                \<and> (sample_count d' ?k \<noteq> sample_count d ?k \<longrightarrow> acknowledged d' ?k ?a)"
  have "?P (fst (handlePacket est d p))"
  proof (rule handlePacket_preserves [where P = ?P])
    fix d' assume P: "?P d'"
    then have k: "flow_key d' p = ?k" using flow_key_hostIPs [of d' d p] by blast
    let ?d'' = "fst (handleTCP est d' p)"
    have "acknowledged ?d'' ?k ?a" if "sample_count ?d'' ?k \<noteq> sample_count d ?k"
    proof (cases "sample_count d' ?k = sample_count d ?k")
      case True
      then show ?thesis using that handleTCP_sampled_acknowledged [of est d' p] k by simp
    next
      case False
      then show ?thesis using P handleTCP_acknowledged by blast
    qed
    then show "?P ?d''" using P by (simp add: handleTCP_config)
  qed simp
  then show ?thesis using assms by blast
qed

lemma handlePacket_statistics:
  assumes "acknowledged d (flow_key d p) (Ack (tcp p))"
  shows "statistics (fst (handlePacket est d p)) k = statistics d k"
proof -
  let ?P = "\<lambda>d'. hostIPs d' = hostIPs d \<and> acknowledged d' (flow_key d p) (Ack (tcp p))
                \<and> statistics d' k = statistics d k"
  have "?P (fst (handlePacket est d p))"
  proof (rule handlePacket_preserves [where P = ?P])
    fix d' assume P: "?P d'"
    then have k: "flow_key d' p = flow_key d p" using flow_key_hostIPs [of d' d p] by blast
    have a: "acknowledged d' (flow_key d' p) (Ack (tcp p))" using P k by simp
    have "statistics (fst (handleTCP est d' p)) k = statistics d' k"
      using a by (rule handleTCP_statistics)
    moreover have "acknowledged (fst (handleTCP est d' p)) (flow_key d p) (Ack (tcp p))"
      using P handleTCP_acknowledged by blast
    ultimately show "?P (fst (handleTCP est d' p))"
      using P by (simp add: handleTCP_config)
  qed (simp add: assms)
  then show ?thesis by simp
qed

lemma handlePacket_config:
  "ExpTTL (fst (handlePacket est d p)) = ExpTTL d"
  "IdleTTL (fst (handlePacket est d p)) = IdleTTL d"
  "Soften (fst (handlePacket est d p)) = Soften d"
  by (rule handlePacket_preserves [where P = "\<lambda>d'. ExpTTL d' = ExpTTL d"],
      simp_all add: handleTCP_config)
     (rule handlePacket_preserves [where P = "\<lambda>d'. IdleTTL d' = IdleTTL d"],
      simp_all add: handleTCP_config,
      rule handlePacket_preserves [where P = "\<lambda>d'. Soften d' = Soften d"],
      simp_all add: handleTCP_config)

lemma handlePacket_single_flow:
  "tcp_over_ipv4 p \<Longrightarrow>
   flows (fst (handlePacket est d p)) (flow_key d p)
     = Some (fst (correlate est d p (fin_ack d p (get_flow est d p))))"
  by (simp add: handlePacket_single handleTCP_flow)

lemma handlePacket_single_outcome:
  "tcp_over_ipv4 p \<Longrightarrow>
   snd (handlePacket est d p)
     = (if snd (correlate est d p (fin_ack d p (get_flow est d p))) then Panic else ReturnNil)"
  by (simp add: handlePacket_single handleTCP_def Let_def)

section \<open>The flow of the examples\<close>

lemma IP_String_ex: "IP_String hostA = ''10.0.0.1''" "IP_String peerB = ''10.0.0.2''"
  by (simp_all add: hostA_def peerB_def Itoa.simps digit_char_def)

lemma ex_outbound_key:
  "hostIPs d = hostIPs ex_sniffer \<Longrightarrow> ourIP d (ex_outbound len off sq ak fin ack opts ts)"
  "hostIPs d = hostIPs ex_sniffer
     \<Longrightarrow> flow_key d (ex_outbound len off sq ak fin ack opts ts) = ex_key"
  by (simp_all add: flow_key_def src_dst_def ourIP_def ex_outbound_def ex_sniffer_def ex_key_def
        IP_String_ex JoinHostPort_def Itoa.simps digit_char_def)

lemma ex_inbound_key:
  "hostIPs d = hostIPs ex_sniffer \<Longrightarrow> \<not> ourIP d (ex_inbound len off sq ak fin ack opts ts)"
  "hostIPs d = hostIPs ex_sniffer
     \<Longrightarrow> flow_key d (ex_inbound len off sq ak fin ack opts ts) = ex_key"
  by (simp_all add: flow_key_def src_dst_def ourIP_def ex_inbound_def ex_sniffer_def ex_key_def
        IP_String_ex JoinHostPort_def Itoa.simps digit_char_def)

lemma ex_tcp_over_ipv4:
  "tcp_over_ipv4 (ex_outbound len off sq ak fin ack opts ts)"
  "tcp_over_ipv4 (ex_inbound len off sq ak fin ack opts ts)"
  by (simp_all add: tcp_over_ipv4_def ex_outbound_def ex_inbound_def)

lemma readUint32_ex:
  "readUint32 [a, b, c, e]
     = push_bit 24 (ucast a) OR push_bit 16 (ucast b) OR push_bit 8 (ucast c) OR ucast e"
  by (simp add: readUint32_def)

lemma GetTimestamps_ex:
  "GetTimestamps (tcp (ex_outbound len off sq ak fin ack
       (ts_options [a1, a2, a3, a4, b1, b2, b3, b4]) ts))
     = Some (readUint32 [a1, a2, a3, a4], readUint32 [b1, b2, b3, b4], False)"
  "GetTimestamps (tcp (ex_inbound len off sq ak fin ack
       (ts_options [a1, a2, a3, a4, b1, b2, b3, b4]) ts))
     = Some (readUint32 [a1, a2, a3, a4], readUint32 [b1, b2, b3, b4], False)"
  by (simp_all add: GetTimestamps_def ex_outbound_def ex_inbound_def ts_options_def
        ts_option_def nop_option_def)

lemma ex_after_out_hostIPs: "hostIPs ex_after_out = hostIPs ex_sniffer"
  by (simp add: ex_after_out_def handlePacket_hostIPs)

lemma ex_after_out_config:
  "ExpTTL ex_after_out = 60" "IdleTTL ex_after_out = 300" "Soften ex_after_out = False"
  by (simp_all add: ex_after_out_def handlePacket_config ex_sniffer_def)

lemma ex_after_out_flows:
  "flows ex_after_out ex_key = Some
     \<lparr>Src = hostA, Dst = peerB, Sport = 443, Dport = 5000,
      stats = \<lparr>SRTT = 0, Jitter = 0, Max_rtt = 0, Min_rtt = 0\<rparr>, Last = 0,
      Timed = [(100, 1000) \<mapsto> 1000000], Seen = Map.empty, Sampled = 0, Done = False,
      Alive = 300000000000\<rparr>"
proof -
  have "flows ex_after_out (flow_key ex_sniffer ex_out)
          = Some (fst (correlate ex_est ex_sniffer ex_out
                         (fin_ack ex_sniffer ex_out (get_flow ex_est ex_sniffer ex_out))))"
    unfolding ex_after_out_def
    by (rule handlePacket_single_flow) (simp add: ex_out_def ex_tcp_over_ipv4)
  then show ?thesis
    unfolding ex_out_def
    apply (simp add: ex_outbound_key)
    apply (simp add: correlate_def ex_outbound_key GetTimestamps_ex readUint32_ex)
    apply (simp add: tcp_payload_sz_def fin_ack_def get_flow_def ex_outbound_key)
    apply (simp add: ex_outbound_def ex_sniffer_def ex_est_def idle_def SetExpiration_def
             NewTCPAccounting_def)
    done
qed

lemma ex_after_ack_hostIPs: "hostIPs ex_after_ack = hostIPs ex_sniffer"
  by (simp add: ex_after_ack_def handlePacket_hostIPs ex_after_out_hostIPs)

lemma ex_after_ack_flows:
  "flows ex_after_ack ex_key = Some
     \<lparr>Src = hostA, Dst = peerB, Sport = 443, Dport = 5000,
      stats = \<lparr>SRTT = 625000, Jitter = 546875, Max_rtt = 5000000, Min_rtt = 0\<rparr>,
      Last = 5000000,
      Timed = [(100, 1000) \<mapsto> 1000000], Seen = [1000 \<mapsto> True], Sampled = 1, Done = False,
      Alive = 300000000000\<rparr>"
proof -
  have "flows ex_after_ack (flow_key ex_after_out ex_ack)
          = Some (fst (correlate ex_est ex_after_out ex_ack
                         (fin_ack ex_after_out ex_ack (get_flow ex_est ex_after_out ex_ack))))"
    unfolding ex_after_ack_def
    by (rule handlePacket_single_flow) (simp add: ex_ack_def ex_tcp_over_ipv4)
  then show ?thesis
    unfolding ex_ack_def
    apply (simp add: ex_inbound_key ex_after_out_hostIPs)
    apply (simp add: correlate_def ex_inbound_key ex_after_out_hostIPs GetTimestamps_ex
             readUint32_ex)
    apply (simp add: fin_ack_def get_flow_def ex_inbound_key ex_after_out_hostIPs
             ex_after_out_flows Alive_Reset_def Timed_at_def Seen_at_def)
    apply (simp add: ex_inbound_def add_sample_def ex_est_def idle_def ex_after_out_config)
    done
qed

lemma ex_keys:
  "flow_key ex_after_out ex_ack = ex_key" "flow_key ex_after_out ex_dup = ex_key"
  by (simp_all add: ex_ack_def ex_dup_def ex_inbound_key ex_after_out_hostIPs)

subsection \<open>Correlation, read off the table\<close>

lemma body_pending:
  "Timed_at (fin_ack d p (get_flow est d p)) t = pending_at d (flow_key d p) t"
  by (cases "flows d (flow_key d p)")
     (simp_all add: Timed_at_def pending_at_def pendingSends_def fin_ack_fields get_flow_fields
        get_flow_new)

lemma body_acknowledged:
  "Seen_at (fin_ack d p (get_flow est d p)) a = acknowledged d (flow_key d p) a"
  by (cases "flows d (flow_key d p)")
     (simp_all add: Seen_at_def acknowledged_def fin_ack_fields get_flow_fields get_flow_new)

lemma body_stats:
  "flows d (flow_key d p) = Some flow \<Longrightarrow> stats (fin_ack d p (get_flow est d p)) = stats flow"
  by (simp add: fin_ack_fields get_flow_fields)

lemma correlate_returns:
  "GetTimestamps (tcp p) = Some r \<Longrightarrow> snd (correlate est d p flow) = False"
  by (cases r) (simp add: correlate_def Let_def)

lemma correlate_Sampled:
  "GetTimestamps (tcp p) = Some (ts, tsecr, e) \<Longrightarrow>
   Sampled (fst (correlate est d p flow))
     = (if \<not> ourIP d p \<and> ACK (tcp p) \<and> Timed_at flow (tsecr, Ack (tcp p)) \<noteq> 0
           \<and> \<not> Seen_at flow (Ack (tcp p))
        then Sampled flow + 1 else Sampled flow)"
  by (simp add: correlate_def Let_def add_sample_fields)

lemma GetTimestamps_absent:
  "\<forall>opt \<in> set opts. OptionType opt \<noteq> 8 \<Longrightarrow> GetTimestamps_opts opts = Some (0, 0, True)"
  by (induction opts) simp_all

lemma matched_ack_statistics:
  assumes "tcp_over_ipv4 p" and "\<not> ourIP d p" and "ACK (tcp p)"
    and "GetTimestamps (tcp p) = Some (ts, tsecr, e)"
    and "flows d (flow_key d p) = Some flow"
    and "Timed_at flow (tsecr, Ack (tcp p)) \<noteq> 0"
    and "\<not> Seen_at flow (Ack (tcp p))"
  shows "snd (handlePacket est d p) = ReturnNil
     \<and> statistics (fst (handlePacket est d p)) (flow_key d p)
         = Some (Sampled flow + 1,
                 MinRTT est (Timestamp p - Timed_at flow (tsecr, Ack (tcp p)))
                   (MaxRTT est (Timestamp p - Timed_at flow (tsecr, Ack (tcp p)))
                     (CalcJitter est (Timestamp p - Timed_at flow (tsecr, Ack (tcp p))) (Soften d)
                       (CalcSRTT est (Timestamp p - Timed_at flow (tsecr, Ack (tcp p))) (Soften d)
                         (stats flow)))),
                 Timestamp p - Timed_at flow (tsecr, Ack (tcp p)))"
proof -
  let ?f = "fin_ack d p (get_flow est d p)"
  have f: "Timed ?f = Timed flow" "Seen ?f = Seen flow" "Sampled ?f = Sampled flow"
    "stats ?f = stats flow"
    by (simp_all only: fin_ack_fields get_flow_fields [OF assms(5)])
  have t: "Timed_at ?f = Timed_at flow" using f(1) by (rule Timed_at_fields)
  have s: "Seen_at ?f = Seen_at flow" using f(2) by (rule Seen_at_fields)
  have c: "correlate est d p ?f
      = ((add_sample est (Soften d) (Timestamp p - Timed_at ?f (tsecr, Ack (tcp p))) ?f)
           \<lparr>Seen := (Seen ?f)(Ack (tcp p) \<mapsto> True)\<rparr>, False)"
    using assms(2) assms(4) _ _ assms(3)
    by (rule correlate_sample) (simp_all add: t s assms)
  show ?thesis
    using assms(1)
    by (simp add: handlePacket_single_outcome statistics_def handlePacket_single_flow c t
          add_sample_def f)
qed

lemma ex_early_facts:
  "tcp_over_ipv4 ex_early" "\<not> ourIP ex_after_out ex_early" "ACK (tcp ex_early)"
  "GetTimestamps (tcp ex_early) = Some (8, 100, False)"
  "flow_key ex_after_out ex_early = ex_key" "Ack (tcp ex_early) = 1000"
  "Timestamp ex_early = 400000"
  by (simp_all add: ex_early_def ex_tcp_over_ipv4 ex_inbound_key ex_after_out_hostIPs
        GetTimestamps_ex readUint32_ex)
     (simp_all add: ex_inbound_def)

subsection \<open>Segments without a timestamp option\<close>

lemma plain_segment_step:
  assumes "tcp_over_ipv4 p" and "\<forall>opt \<in> set (Options (tcp p)). OptionType opt \<noteq> 8"
  shows "snd (handlePacket est d p) = ReturnNil
     \<and> sample_count (fst (handlePacket est d p)) (flow_key d p)
         = (if \<not> ourIP d p \<and> ACK (tcp p) \<and> pending_at d (flow_key d p) (0, Ack (tcp p)) \<noteq> 0
               \<and> \<not> acknowledged d (flow_key d p) (Ack (tcp p))
            then sample_count d (flow_key d p) + 1 else sample_count d (flow_key d p))"
proof -
  have g: "GetTimestamps (tcp p) = Some (0, 0, True)"
    using assms(2) by (simp add: GetTimestamps_def GetTimestamps_absent)
  show ?thesis
    using assms(1)
    by (simp add: handlePacket_single_outcome correlate_returns [OF g] sample_count_def
          handlePacket_single_flow correlate_Sampled [OF g] body_pending body_acknowledged
          sample_count_body [symmetric])
qed


lemma ex_plain_facts:
  "tcp_over_ipv4 ex_out_plain" "tcp_over_ipv4 ex_ack_plain"
  "Options (tcp ex_out_plain) = []" "Options (tcp ex_ack_plain) = []"
  "hostIPs d = hostIPs ex_sniffer \<Longrightarrow> flow_key d ex_out_plain = ex_key"
  "hostIPs d = hostIPs ex_sniffer \<Longrightarrow> flow_key d ex_ack_plain = ex_key"
  "hostIPs d = hostIPs ex_sniffer \<Longrightarrow> ourIP d ex_out_plain"
  "hostIPs d = hostIPs ex_sniffer \<Longrightarrow> \<not> ourIP d ex_ack_plain"
  "ACK (tcp ex_ack_plain)" "Ack (tcp ex_ack_plain) = 1000"
  by (simp_all add: ex_out_plain_def ex_ack_plain_def ex_tcp_over_ipv4 ex_inbound_key
        ex_outbound_key)
     (simp_all add: ex_inbound_def ex_outbound_def)

lemma ex_plain_flows:
  "flows (fst (handlePacket ex_est ex_sniffer ex_out_plain)) ex_key = Some
     \<lparr>Src = hostA, Dst = peerB, Sport = 443, Dport = 5000,
      stats = \<lparr>SRTT = 0, Jitter = 0, Max_rtt = 0, Min_rtt = 0\<rparr>, Last = 0,
      Timed = [(0, 1000) \<mapsto> 1000000], Seen = Map.empty, Sampled = 0, Done = False,
      Alive = 300000000000\<rparr>"
proof -
  have "flows (fst (handlePacket ex_est ex_sniffer ex_out_plain)) (flow_key ex_sniffer ex_out_plain)
          = Some (fst (correlate ex_est ex_sniffer ex_out_plain
                    (fin_ack ex_sniffer ex_out_plain (get_flow ex_est ex_sniffer ex_out_plain))))"
    by (rule handlePacket_single_flow) (rule ex_plain_facts)
  then show ?thesis
    apply (simp add: ex_plain_facts)
    apply (simp add: correlate_def ex_plain_facts GetTimestamps_def)
    apply (simp add: tcp_payload_sz_def fin_ack_def get_flow_def ex_plain_facts)
    apply (simp add: ex_out_plain_def ex_outbound_def ex_sniffer_def ex_est_def idle_def
             SetExpiration_def NewTCPAccounting_def)
    done
qed

subsection \<open>The table of pending sends\<close>

lemma handleTCP_inbound_pendingSends:
  assumes "\<not> ourIP d p"
  shows "pendingSends (fst (handleTCP est d p)) k = pendingSends d k"
proof (cases "k = flow_key d p")
  case True
  have "Timed (fin_ack d p (get_flow est d p)) = pendingSends d (flow_key d p)"
    by (cases "flows d (flow_key d p)")
       (simp_all add: pendingSends_def fin_ack_fields get_flow_fields get_flow_new)
  then show ?thesis
    using True assms by (simp add: pendingSends_def handleTCP_flow correlate_inbound_Timed)
next
  case False
  then show ?thesis by (simp add: pendingSends_def handleTCP_other)
qed

lemma handlePacket_inbound_pendingSends:
  assumes "\<not> ourIP d p"
  shows "pendingSends (fst (handlePacket est d p)) k = pendingSends d k"
proof -
  let ?P = "\<lambda>d'. hostIPs d' = hostIPs d \<and> pendingSends d' k = pendingSends d k"
  have "?P (fst (handlePacket est d p))"
  proof (rule handlePacket_preserves [where P = ?P])
    fix d' assume P: "?P d'"
    then have "\<not> ourIP d' p" using assms ourIP_hostIPs [of d' d p] by simp
    then have "pendingSends (fst (handleTCP est d' p)) k = pendingSends d' k"
      by (rule handleTCP_inbound_pendingSends)
    then show "?P (fst (handleTCP est d' p))"
      using P by (simp add: handleTCP_config)
  qed simp
  then show ?thesis by simp
qed

lemma handlePacket_sampled_inbound:
  assumes "sample_count (fst (handlePacket est d p)) (flow_key d p) \<noteq> sample_count d (flow_key d p)"
  shows "\<not> ourIP d p"
proof -
  let ?k = "flow_key d p"
  let ?P = "\<lambda>d'. hostIPs d' = hostIPs d
                \<and> (sample_count d' ?k \<noteq> sample_count d ?k \<longrightarrow> \<not> ourIP d p)"
  have "?P (fst (handlePacket est d p))"
  proof (rule handlePacket_preserves [where P = ?P])
    fix d' assume P: "?P d'"
    then have k: "flow_key d' p = ?k" using flow_key_hostIPs [of d' d p] by blast
    have o: "ourIP d' p = ourIP d p" using P ourIP_hostIPs [of d' d p] by blast
    let ?d'' = "fst (handleTCP est d' p)"
    have "\<not> ourIP d p" if "sample_count ?d'' ?k \<noteq> sample_count d ?k"
    proof (cases "sample_count d' ?k = sample_count d ?k")
      case True
      then have "sample_count ?d'' (flow_key d' p) \<noteq> sample_count d' (flow_key d' p)"
        using that k by simp
      then have "\<not> ourIP d' p" by (rule handleTCP_sampled_inbound)
      then show ?thesis using o by simp
    next
      case False
      then show ?thesis using P by blast
    qed
    then show "?P ?d''" using P by (simp add: handleTCP_config)
  qed simp
  then show ?thesis using assms by blast
qed

lemma sampled_keeps_pendingSends:
  assumes "sample_count (fst (handlePacket est d p)) (flow_key d p) \<noteq> sample_count d (flow_key d p)"
  shows "pendingSends (fst (handlePacket est d p)) k = pendingSends d k"
  using assms by (intro handlePacket_inbound_pendingSends handlePacket_sampled_inbound)

subsection \<open>The done flag and the timer\<close>

lemma done_flag_body:
  "Done (fin_ack d p (get_flow est d p))
     \<longleftrightarrow> done_flag d (flow_key d p) \<or> (0 < sint (ExpTTL d) \<and> ACK (tcp p) \<and> FIN (tcp p))"
  by (cases "flows d (flow_key d p)")
     (simp_all add: fin_ack_Done done_flag_def get_flow_fields get_flow_new)

lemma timer_body:
  "Alive (fin_ack d p (get_flow est d p))
     = (if 0 < sint (ExpTTL d) \<and> ACK (tcp p) \<and> FIN (tcp p) \<and> \<not> done_flag d (flow_key d p)
        then expTTL d else idle d)"
  by (cases "flows d (flow_key d p)")
     (simp_all add: fin_ack_Alive get_flow_Alive done_flag_def get_flow_fields get_flow_new)

lemma handleTCP_done_flag:
  "done_flag (fst (handleTCP est d p)) k
     \<longleftrightarrow> done_flag d k
         \<or> (k = flow_key d p \<and> 0 < sint (ExpTTL d) \<and> ACK (tcp p) \<and> FIN (tcp p))"
proof (cases "k = flow_key d p")
  case True
  then show ?thesis
    by (simp add: done_flag_def [of "fst (handleTCP est d p)"] handleTCP_flow
          correlate_Done_Alive done_flag_body)
next
  case False
  then show ?thesis by (simp add: done_flag_def handleTCP_other)
qed

lemma handleTCP_timer:
  "timer (fst (handleTCP est d p)) (flow_key d p)
     = Some (if 0 < sint (ExpTTL d) \<and> ACK (tcp p) \<and> FIN (tcp p) \<and> \<not> done_flag d (flow_key d p)
             then expTTL d else idle d)"
  by (simp add: timer_def handleTCP_flow correlate_Done_Alive timer_body)

lemma handlePacket_done_mono:
  "done_flag d k \<Longrightarrow> done_flag (fst (handlePacket est d p)) k"
  by (rule handlePacket_preserves [where P = "\<lambda>d'. done_flag d' k"])
     (simp_all add: handleTCP_done_flag)

lemma SniffLive_done_mono:
  "done_flag d k \<Longrightarrow> done_flag (fst (SniffLive est d ps)) k"
proof (induction ps arbitrary: d)
  case Nil then show ?case by simp
next
  case (Cons p ps)
  obtain d' out where h: "handlePacket est d p = (d', out)" by (cases "handlePacket est d p")
  have "done_flag d' k" using handlePacket_done_mono [OF Cons.prems, of est p] h by simp
  then show ?case using h Cons.IH [of d'] by (cases out) simp_all
qed

lemma handlePacket_single_done_timer:
  assumes "tcp_over_ipv4 p"
  shows "done_flag (fst (handlePacket est d p)) k
           \<longleftrightarrow> done_flag d k
               \<or> (k = flow_key d p \<and> 0 < sint (ExpTTL d) \<and> ACK (tcp p) \<and> FIN (tcp p))"
    and "timer (fst (handlePacket est d p)) (flow_key d p)
           = Some (if 0 < sint (ExpTTL d) \<and> ACK (tcp p) \<and> FIN (tcp p)
                      \<and> \<not> done_flag d (flow_key d p)
                   then expTTL d else idle d)"
  using assms by (simp_all add: handlePacket_single handleTCP_done_flag handleTCP_timer)


lemma ex_after_ack_config:
  "ExpTTL ex_after_ack = 60" "IdleTTL ex_after_ack = 300"
  by (simp_all add: ex_after_ack_def handlePacket_config ex_after_out_config)

lemma ex_fin_facts:
  "tcp_over_ipv4 ex_fin" "flow_key ex_after_ack ex_fin = ex_key" "ACK (tcp ex_fin)" "FIN (tcp ex_fin)"
  by (simp_all add: ex_fin_def ex_tcp_over_ipv4 ex_outbound_key ex_after_ack_hostIPs)
     (simp_all add: ex_outbound_def)

lemma ex_after_fin_config:
  "ExpTTL ex_after_fin = 60" "IdleTTL ex_after_fin = 300" "hostIPs ex_after_fin = hostIPs ex_sniffer"
  by (simp_all add: ex_after_fin_def handlePacket_config handlePacket_hostIPs ex_after_ack_config
        ex_after_ack_hostIPs)

lemma ex_last_ack_facts:
  "tcp_over_ipv4 ex_last_ack" "flow_key ex_after_fin ex_last_ack = ex_key"
  "ACK (tcp ex_last_ack)" "\<not> FIN (tcp ex_last_ack)"
  by (simp_all add: ex_last_ack_def ex_tcp_over_ipv4 ex_inbound_key ex_after_fin_config)
     (simp_all add: ex_inbound_def)

lemma ex_after_ack_not_done: "\<not> done_flag ex_after_ack ex_key"
  by (simp add: done_flag_def ex_after_ack_flows)

lemma ex_after_fin_done: "done_flag ex_after_fin ex_key"
  using handlePacket_single_done_timer(1) [OF ex_fin_facts(1), of ex_est ex_after_ack ex_key]
  by (simp add: ex_after_fin_def ex_fin_facts ex_after_ack_config)

subsection \<open>Panics\<close>

lemma handlePacket_single_panic:
  "tcp_over_ipv4 p \<Longrightarrow> \<not> ourIP d p \<Longrightarrow> GetTimestamps (tcp p) = None
     \<Longrightarrow> snd (handlePacket est d p) = Panic"
  by (simp add: handlePacket_single_outcome correlate_panic)

lemma ex_malformed_facts:
  "tcp_over_ipv4 ex_malformed" "hostIPs d = hostIPs ex_sniffer \<Longrightarrow> \<not> ourIP d ex_malformed"
  "GetTimestamps (tcp ex_malformed) = None"
  by (simp_all add: ex_malformed_def ex_tcp_over_ipv4 ex_inbound_key)
     (simp add: GetTimestamps_def ex_inbound_def)

subsection \<open>The payload size\<close>

lemma header_length:
  fixes ihl off :: u8
  assumes "unat ihl \<le> 15" and "unat off \<le> 15"
  shows "unat ((ihl + off) * 4) = 4 * (unat ihl + unat off)"
proof -
  have "unat (ihl + off) = unat ihl + unat off"
    using assms by (simp add: unat_word_ariths)
  then show ?thesis
    using assms by (simp add: unat_word_ariths)
qed

lemma widen_unat:
  "unat (ucast (l :: u16) :: u32) = unat l" "unat (ucast (h :: u8) :: u32) = unat h"
  by (simp_all add: unsigned_ucast_eq take_bit_nat_eq_self unsigned_less [THEN less_trans])

lemma difference_wraps:
  fixes l :: u16 and h :: u8
  assumes "unat l < unat h"
  shows "unat (ucast l - ucast h :: u32) = 2 ^ 32 + unat l - unat h"
    and "0 < (ucast l - ucast h :: u32)"
proof -
  show "unat (ucast l - ucast h :: u32) = 2 ^ 32 + unat l - unat h"
    using assms by (simp add: unat_sub_if' widen_unat)
  have "(ucast l :: u32) \<noteq> ucast h"
    using assms widen_unat(1) [of l] widen_unat(2) [of h] by auto
  then show "0 < (ucast l - ucast h :: u32)"
    by (simp add: word_greater_zero_iff)
qed

lemma payload_size_wraps:
  assumes "unat (Length (ip4 p)) < unat ((IHL (ip4 p) + DataOffset (tcp p)) * 4)"
  shows "unat (tcp_payload_sz p)
           = 2 ^ 32 + unat (Length (ip4 p)) - unat ((IHL (ip4 p) + DataOffset (tcp p)) * 4)"
    and "0 < tcp_payload_sz p"
  unfolding tcp_payload_sz_def using assms by (rule difference_wraps)+

lemma outbound_data_seeds:
  assumes "tcp_over_ipv4 p" and "ourIP d p" and "0 < tcp_payload_sz p"
    and "GetTimestamps (tcp p) = Some (ts, tsecr, e)"
  shows "pendingSends (fst (handlePacket est d p)) (flow_key d p) (ts, Seq (tcp p))
           = Some (Timestamp p)"
  using assms
  by (simp add: pendingSends_def handlePacket_single_flow correlate_outbound)


lemma ex_wrapped_facts:
  "tcp_over_ipv4 ex_wrapped" "ourIP ex_sniffer ex_wrapped" "flow_key ex_sniffer ex_wrapped = ex_key"
  "GetTimestamps (tcp ex_wrapped) = Some (130, 9, False)"
  "Length (ip4 ex_wrapped) = 40" "IHL (ip4 ex_wrapped) = 5" "DataOffset (tcp ex_wrapped) = 15"
  "Seq (tcp ex_wrapped) = 3000" "Timestamp ex_wrapped = 3000000"
  by (simp_all add: ex_wrapped_def ex_tcp_over_ipv4 ex_outbound_key GetTimestamps_ex
        readUint32_ex)
     (simp_all add: ex_outbound_def)

subsection \<open>The flow key\<close>



subsection \<open>The locks of the reporting tick\<close>

lemma table_held_from_work:
  "\<forall>e \<in> set es. record_work e \<Longrightarrow> table_held_from h es = h"
proof (induction es)
  case Nil then show ?case by simp
next
  case (Cons e es)
  then show ?case by (cases e) simp_all
qed

lemma report_flow_work: "\<forall>e \<in> set (report_flow flush now ival lf kf). record_work e"
  by (cases kf) (auto simp: report_flow_def)

lemma report_flows_work:
  "\<forall>e \<in> set (concat (map (report_flow flush now ival lf) table)). record_work e"
  using report_flow_work by auto

lemma table_held_from_append:
  "table_held_from h (xs @ ys) = table_held_from (table_held_from h xs) ys"
proof (induction xs arbitrary: h)
  case Nil then show ?case by simp
next
  case (Cons e es)
  then show ?case by (cases e) simp_all
qed

lemma locked_scan:
  assumes "TableLock # body @ [TableUnlock] = pre @ e # post"
    and "\<forall>x \<in> set body. record_work x" and "record_work e"
  shows "table_held pre"
proof (cases pre)
  case Nil
  then show ?thesis using assms by auto
next
  case (Cons x pre')
  then have x: "x = TableLock" and b: "body @ [TableUnlock] = pre' @ e # post"
    using assms(1) by simp_all
  have "post \<noteq> []"
  proof
    assume "post = []"
    then have "e = TableUnlock" using b by (metis last_snoc append_assoc append_Cons append_Nil)
    then show False using assms(3) by simp
  qed
  then obtain post' l where p: "post = post' @ [l]" by (metis rev_exhaust)
  then have "body = pre' @ e # post'" using b by (metis append_Cons append_assoc butlast_snoc)
  then have "\<forall>y \<in> set pre'. record_work y" using assms(2) by simp
  then show ?thesis using Cons x by (simp add: table_held_def table_held_from_work)
qed

section \<open>Claims\<close>

text \<open>
  C1. At most one RTT sample per acknowledgment number. Let a packet \<open>p\<close> contribute a
  sample to its flow (the sample count of the flow changes when \<open>handlePacket\<close> processes
  it). Then, after any further packets \<open>qs\<close> went through the sniffing loop, a segment \<open>r\<close>
  of the same flow with the same acknowledgment number leaves the sample count, the
  smoothed RTT, the jitter, the minimum and maximum and the last RTT of the flow as they
  were, however often it is repeated.
\<close>

theorem one_sample_per_acknowledgment:
  assumes "sample_count (fst (handlePacket est d p)) (flow_key d p) \<noteq> sample_count d (flow_key d p)"
    and "flow_key d r = flow_key d p"
    and "Ack (tcp r) = Ack (tcp p)"
  shows "statistics (fst (handlePacket est (fst (SniffLive est (fst (handlePacket est d p)) qs)) r))
           (flow_key d p)
         = statistics (fst (SniffLive est (fst (handlePacket est d p)) qs)) (flow_key d p)"
proof -
  let ?d1 = "fst (handlePacket est d p)"
  let ?d2 = "fst (SniffLive est ?d1 qs)"
  have "acknowledged ?d1 (flow_key d p) (Ack (tcp p))"
    using assms(1) by (rule handlePacket_sampled_acknowledged)
  then have a: "acknowledged ?d2 (flow_key d p) (Ack (tcp p))"
    by (rule SniffLive_acknowledged)
  have "hostIPs ?d2 = hostIPs d"
    by (simp add: SniffLive_hostIPs handlePacket_hostIPs)
  then have k: "flow_key ?d2 r = flow_key d p"
    using assms(2) flow_key_hostIPs [of ?d2 d r] by simp
  have "acknowledged ?d2 (flow_key ?d2 r) (Ack (tcp r))"
    unfolding k assms(3) by (rule a)
  then show ?thesis
    unfolding k [symmetric] by (rule handlePacket_statistics)
qed

theorem one_sample_per_acknowledgment_witness:
  "sample_count ex_after_out ex_key = 0
   \<and> sample_count (fst (handlePacket ex_est ex_after_out ex_ack)) ex_key = 1
   \<and> flow_key ex_after_out ex_dup = flow_key ex_after_out ex_ack
   \<and> Ack (tcp ex_dup) = Ack (tcp ex_ack)
   \<and> statistics (fst (handlePacket ex_est
          (fst (SniffLive ex_est (fst (handlePacket ex_est ex_after_out ex_ack)) [ex_dup])) ex_dup))
        ex_key
      = statistics (fst (SniffLive ex_est (fst (handlePacket ex_est ex_after_out ex_ack)) [ex_dup]))
          ex_key"
proof -
  have c0: "sample_count ex_after_out ex_key = 0"
    by (simp add: sample_count_def ex_after_out_flows)
  have c1: "sample_count (fst (handlePacket ex_est ex_after_out ex_ack)) ex_key = 1"
    using ex_after_ack_flows by (simp add: sample_count_def ex_after_ack_def)
  have h1: "sample_count (fst (handlePacket ex_est ex_after_out ex_ack)) (flow_key ex_after_out ex_ack)
              \<noteq> sample_count ex_after_out (flow_key ex_after_out ex_ack)"
    unfolding ex_keys c0 c1 by simp
  have h2: "flow_key ex_after_out ex_dup = flow_key ex_after_out ex_ack"
    by (simp add: ex_keys)
  have h3: "Ack (tcp ex_dup) = Ack (tcp ex_ack)"
    by (simp add: ex_dup_def ex_ack_def ex_inbound_def)
  show ?thesis
    using one_sample_per_acknowledgment [OF h1 h2 h3, of "[ex_dup]"] c0 c1 h2 h3
    unfolding ex_keys by simp
qed

text \<open>
  C2 (as stated: only a strictly positive sample is fed to the estimator). The code has no
  such test. The acknowledgment \<open>ex_early\<close> of the data segment \<open>ex_out\<close> is captured 0.6 ms
  before the segment it acknowledges; the difference of the timestamps is negative, and
  \<open>handlePacket\<close> counts it as a sample whose value is the difference read as a \<open>uint64\<close>.
\<close>

theorem nonpositive_rtt_is_sampled:
  "sint (Timestamp ex_early - pending_at ex_after_out ex_key (100, 1000)) = - 600000
   \<and> statistics ex_after_out ex_key
       = Some (0, \<lparr>SRTT = 0, Jitter = 0, Max_rtt = 0, Min_rtt = 0\<rparr>, 0)
   \<and> statistics (fst (handlePacket ex_est ex_after_out ex_early)) ex_key
       = Some (1, \<lparr>SRTT = 2305843009213618952, Jitter = 2017612633061916583,
                   Max_rtt = 18446744073708951616, Min_rtt = 0\<rparr>,
               18446744073708951616)"
proof -
  have t: "Timed_at (the (flows ex_after_out ex_key)) (100, 1000) = 1000000"
    by (simp add: ex_after_out_flows Timed_at_def)
  have "statistics (fst (handlePacket ex_est ex_after_out ex_early)) (flow_key ex_after_out ex_early)
       = Some (1, \<lparr>SRTT = 2305843009213618952, Jitter = 2017612633061916583,
                   Max_rtt = 18446744073708951616, Min_rtt = 0\<rparr>,
               18446744073708951616)"
    using matched_ack_statistics [of ex_early ex_after_out 8 100 False
            "the (flows ex_after_out ex_key)" ex_est]
    by (simp add: ex_early_facts t ex_after_out_config)
       (simp add: ex_after_out_flows Seen_at_def ex_est_def)
  then show ?thesis
    by (simp add: ex_early_facts pending_at_def pendingSends_def ex_after_out_flows
          statistics_def)
qed


text \<open>
  C2, amended. For every inbound segment with the ACK flag whose key \<open>(TSecr, Ack)\<close> has a
  non-zero entry in \<open>pendingSends\<close> and whose acknowledgment number is not yet in
  \<open>acknowledged\<close>, the sample \<open>uint64(captureTimestamp - pendingSends[key])\<close> is fed to the
  estimator whatever its sign: the sample count grows by one, the sample becomes the last
  RTT and goes through \<open>CalcSRTT\<close>, \<open>CalcJitter\<close>, \<open>MaxRTT\<close> and \<open>MinRTT\<close> in this order, and
  \<open>handlePacket\<close> returns \<open>nil\<close>.
\<close>

theorem matched_ack_sampled_whatever_sign:
  assumes "tcp_over_ipv4 p" and "\<not> ourIP d p" and "ACK (tcp p)"
    and "GetTimestamps (tcp p) = Some (ts, tsecr, e)"
    and "flows d (flow_key d p) = Some flow"
    and "Timed_at flow (tsecr, Ack (tcp p)) \<noteq> 0"
    and "\<not> Seen_at flow (Ack (tcp p))"
  shows "snd (handlePacket est d p) = ReturnNil
     \<and> statistics (fst (handlePacket est d p)) (flow_key d p)
         = Some (Sampled flow + 1,
                 MinRTT est (Timestamp p - Timed_at flow (tsecr, Ack (tcp p)))
                   (MaxRTT est (Timestamp p - Timed_at flow (tsecr, Ack (tcp p)))
                     (CalcJitter est (Timestamp p - Timed_at flow (tsecr, Ack (tcp p))) (Soften d)
                       (CalcSRTT est (Timestamp p - Timed_at flow (tsecr, Ack (tcp p))) (Soften d)
                         (stats flow)))),
                 Timestamp p - Timed_at flow (tsecr, Ack (tcp p)))"
  using assms by (rule matched_ack_statistics)

theorem matched_ack_sampled_whatever_sign_witness:
  "tcp_over_ipv4 ex_early \<and> \<not> ourIP ex_after_out ex_early \<and> ACK (tcp ex_early)
   \<and> GetTimestamps (tcp ex_early) = Some (8, 100, False)
   \<and> Timed_at (the (flows ex_after_out ex_key)) (100, Ack (tcp ex_early)) = 1000000
   \<and> \<not> Seen_at (the (flows ex_after_out ex_key)) (Ack (tcp ex_early))
   \<and> Timestamp ex_early = 400000
   \<and> snd (handlePacket ex_est ex_after_out ex_early) = ReturnNil
   \<and> statistics (fst (handlePacket ex_est ex_after_out ex_early)) ex_key
       = Some (1, \<lparr>SRTT = 2305843009213618952, Jitter = 2017612633061916583,
                   Max_rtt = 18446744073708951616, Min_rtt = 0\<rparr>,
               18446744073708951616)"
proof -
  let ?flow = "the (flows ex_after_out ex_key)"
  have h5: "flows ex_after_out (flow_key ex_after_out ex_early) = Some ?flow"
    by (simp add: ex_early_facts ex_after_out_flows)
  have t: "Timed_at ?flow (100, Ack (tcp ex_early)) = 1000000"
    by (simp add: ex_after_out_flows Timed_at_def ex_early_facts)
  then have h6: "Timed_at ?flow (100, Ack (tcp ex_early)) \<noteq> 0" by simp
  have h7: "\<not> Seen_at ?flow (Ack (tcp ex_early))"
    by (simp add: ex_after_out_flows Seen_at_def)
  have t': "Timed_at ?flow (100, 1000) = 1000000"
    using t by (simp add: ex_early_facts)
  have h7': "\<not> Seen_at ?flow 1000"
    using h7 by (simp add: ex_early_facts)
  show ?thesis
    using matched_ack_sampled_whatever_sign
            [OF ex_early_facts(1) ex_early_facts(2) ex_early_facts(3) ex_early_facts(4) h5 h6 h7,
             of ex_est]
    by (simp add: ex_early_facts t' h7' ex_after_out_config)
       (simp add: ex_after_out_flows ex_est_def)
qed

text \<open>
  C3 (as stated: a flow without TCP timestamp options is never sampled). \<open>GetTimestamps\<close>
  returns zeros with its error, and both callers drop the error. A data segment and its
  acknowledgment, neither with any option, give the flow a sample.
\<close>

theorem plain_flow_is_sampled:
  "Options (tcp ex_out_plain) = [] \<and> Options (tcp ex_ack_plain) = []
   \<and> snd (SniffLive ex_est ex_sniffer [ex_out_plain, ex_ack_plain])
   \<and> sample_count (fst (SniffLive ex_est ex_sniffer [ex_out_plain, ex_ack_plain])) ex_key = 1"
proof -
  let ?d1 = "fst (handlePacket ex_est ex_sniffer ex_out_plain)"
  let ?d2 = "fst (handlePacket ex_est ?d1 ex_ack_plain)"
  have h: "hostIPs ?d1 = hostIPs ex_sniffer" by (rule handlePacket_hostIPs)
  have r1: "snd (handlePacket ex_est ex_sniffer ex_out_plain) = ReturnNil"
    using plain_segment_step [of ex_out_plain ex_est ex_sniffer] by (simp add: ex_plain_facts)
  have "snd (handlePacket ex_est ?d1 ex_ack_plain) = ReturnNil
     \<and> sample_count ?d2 (flow_key ?d1 ex_ack_plain)
         = (if \<not> ourIP ?d1 ex_ack_plain \<and> ACK (tcp ex_ack_plain)
               \<and> pending_at ?d1 (flow_key ?d1 ex_ack_plain) (0, Ack (tcp ex_ack_plain)) \<noteq> 0
               \<and> \<not> acknowledged ?d1 (flow_key ?d1 ex_ack_plain) (Ack (tcp ex_ack_plain))
            then sample_count ?d1 (flow_key ?d1 ex_ack_plain) + 1
            else sample_count ?d1 (flow_key ?d1 ex_ack_plain))"
    by (rule plain_segment_step) (simp_all add: ex_plain_facts)
  then have r2: "snd (handlePacket ex_est ?d1 ex_ack_plain) = ReturnNil"
    and s2: "sample_count ?d2 ex_key = 1"
    by (simp_all add: ex_plain_facts h pending_at_def pendingSends_def acknowledged_def
          sample_count_def ex_plain_flows Seen_at_def)
  have "SniffLive ex_est ex_sniffer [ex_out_plain, ex_ack_plain] = (?d2, True)"
    using r1 r2
    by (cases "handlePacket ex_est ex_sniffer ex_out_plain";
        cases "handlePacket ex_est ?d1 ex_ack_plain") simp
  then show ?thesis using s2 by (simp add: ex_plain_facts)
qed

text \<open>
  C3, amended. A segment without a TCP timestamp option is no error: \<open>handlePacket\<close> returns
  \<open>nil\<close> and does not panic. Sampling is not skipped: the timestamp values are read as 0,
  and the sample count of the flow grows by one exactly when the segment is inbound,
  carries the ACK flag, \<open>pendingSends\<close> has a non-zero entry under \<open>(0, Ack)\<close> and the
  acknowledgment number is not yet in \<open>acknowledged\<close>; otherwise it stays as it is. So the
  count stays 0 for as long as no acknowledgment number meets the sequence number of an
  earlier data segment from the host.
\<close>

theorem plain_segment_sampling:
  assumes "tcp_over_ipv4 p" and "\<forall>opt \<in> set (Options (tcp p)). OptionType opt \<noteq> 8"
  shows "snd (handlePacket est d p) = ReturnNil
     \<and> sample_count (fst (handlePacket est d p)) (flow_key d p)
         = (if \<not> ourIP d p \<and> ACK (tcp p) \<and> pending_at d (flow_key d p) (0, Ack (tcp p)) \<noteq> 0
               \<and> \<not> acknowledged d (flow_key d p) (Ack (tcp p))
            then sample_count d (flow_key d p) + 1 else sample_count d (flow_key d p))"
  using assms by (rule plain_segment_step)

theorem plain_segment_sampling_witness:
  "tcp_over_ipv4 ex_ack_plain
   \<and> Options (tcp ex_ack_plain) = []
   \<and> snd (handlePacket ex_est (fst (handlePacket ex_est ex_sniffer ex_out_plain)) ex_ack_plain)
       = ReturnNil
   \<and> sample_count
         (fst (handlePacket ex_est (fst (handlePacket ex_est ex_sniffer ex_out_plain)) ex_ack_plain))
         ex_key = 1"
proof -
  let ?d1 = "fst (handlePacket ex_est ex_sniffer ex_out_plain)"
  have h: "hostIPs ?d1 = hostIPs ex_sniffer" by (rule handlePacket_hostIPs)
  have h2: "\<forall>opt \<in> set (Options (tcp ex_ack_plain)). OptionType opt \<noteq> 8"
    by (simp add: ex_plain_facts)
  show ?thesis
    using plain_segment_sampling [OF ex_plain_facts(2) h2, of ex_est ?d1]
    by (simp add: ex_plain_facts h pending_at_def pendingSends_def acknowledged_def
          sample_count_def ex_plain_flows Seen_at_def)
qed

text \<open>
  C4 (as stated: the matched \<open>pendingSends\<close> entry is deleted at once). \<open>handlePacket\<close> never
  deletes from \<open>Timed\<close>. After the acknowledgment \<open>ex_ack\<close> has given its sample, the entry
  it matched, under \<open>(100, 1000)\<close>, is still in the table with its send timestamp.
\<close>

theorem matched_entry_is_kept:
  "sample_count ex_after_out ex_key = 0
   \<and> sample_count (fst (handlePacket ex_est ex_after_out ex_ack)) ex_key = 1
   \<and> GetTimestamps (tcp ex_ack) = Some (8, 100, False) \<and> Ack (tcp ex_ack) = 1000
   \<and> pendingSends ex_after_out ex_key (100, 1000) = Some 1000000
   \<and> pendingSends (fst (handlePacket ex_est ex_after_out ex_ack)) ex_key (100, 1000)
       = Some 1000000"
  unfolding ex_after_ack_def [symmetric]
  by (simp add: sample_count_def pendingSends_def ex_after_out_flows ex_after_ack_flows)
     (simp add: ex_ack_def GetTimestamps_ex readUint32_ex, simp add: ex_inbound_def)

text \<open>
  C4, amended. Whenever a segment contributes an RTT sample, \<open>handlePacket\<close> leaves the
  \<open>pendingSends\<close> table of every flow as it was: the matched entry is not deleted and
  stays in the table with its send timestamp. (A second sample for it is held off by the
  \<open>acknowledged\<close> set alone.)
\<close>

theorem sampling_keeps_pendingSends:
  assumes "sample_count (fst (handlePacket est d p)) (flow_key d p) \<noteq> sample_count d (flow_key d p)"
  shows "pendingSends (fst (handlePacket est d p)) k = pendingSends d k"
  using assms by (rule sampled_keeps_pendingSends)

theorem sampling_keeps_pendingSends_witness:
  "sample_count (fst (handlePacket ex_est ex_after_out ex_ack)) (flow_key ex_after_out ex_ack)
     \<noteq> sample_count ex_after_out (flow_key ex_after_out ex_ack)
   \<and> pendingSends (fst (handlePacket ex_est ex_after_out ex_ack)) ex_key
       = pendingSends ex_after_out ex_key
   \<and> pendingSends ex_after_out ex_key (100, 1000) = Some 1000000"
proof -
  have h: "sample_count (fst (handlePacket ex_est ex_after_out ex_ack)) (flow_key ex_after_out ex_ack)
     \<noteq> sample_count ex_after_out (flow_key ex_after_out ex_ack)"
    unfolding ex_after_ack_def [symmetric]
    by (simp add: ex_keys sample_count_def ex_after_out_flows ex_after_ack_flows)
  show ?thesis
    using h sampling_keeps_pendingSends [OF h, of ex_key]
    by (simp add: pendingSends_def ex_after_out_flows)
qed

text \<open>
  C5 (the timer of a closing flow is never rearmed with the idle timeout). The code at the
  close of the example flow: the FIN+ACK segment \<open>ex_fin\<close> sets \<open>done\<close> and arms the timer
  with \<open>ExpTTL\<close>, 60 s; the acknowledgment \<open>ex_last_ack\<close> that follows finds the flow in the
  table and resets the timer to the idle timeout, 300 s, since \<open>flow.Alive.Reset(idle)\<close> at
  line 181 does not look at \<open>flow.Done\<close>.
\<close>

theorem trailing_packet_rearms_idle_timeout:
  "FIN (tcp ex_fin) \<and> ACK (tcp ex_fin)
   \<and> done_flag (fst (handlePacket ex_est ex_after_ack ex_fin)) ex_key
   \<and> timer (fst (handlePacket ex_est ex_after_ack ex_fin)) ex_key = Some 60000000000
   \<and> expTTL ex_after_ack = 60000000000 \<and> idle ex_after_ack = 300000000000
   \<and> flow_key (fst (handlePacket ex_est ex_after_ack ex_fin)) ex_last_ack = ex_key
   \<and> timer (fst (handlePacket ex_est (fst (handlePacket ex_est ex_after_ack ex_fin)) ex_last_ack))
        ex_key = Some 300000000000"
proof -
  have t1: "timer ex_after_fin ex_key = Some 60000000000"
    using handlePacket_single_done_timer(2) [OF ex_fin_facts(1), of ex_est ex_after_ack]
    by (simp add: ex_after_fin_def ex_fin_facts ex_after_ack_config ex_after_ack_not_done
          expTTL_def)
  have t2: "timer (fst (handlePacket ex_est ex_after_fin ex_last_ack)) ex_key = Some 300000000000"
    using handlePacket_single_done_timer(2) [OF ex_last_ack_facts(1), of ex_est ex_after_fin]
    by (simp add: ex_last_ack_facts ex_after_fin_config idle_def)
  show ?thesis
    using t1 t2 ex_after_fin_done
    unfolding ex_after_fin_def [symmetric]
    by (simp add: ex_fin_facts ex_last_ack_facts expTTL_def idle_def ex_after_ack_config)
qed

text \<open>
  C6. The \<open>done\<close> flag of a flow. After a TCP segment over IPv4 went through \<open>handlePacket\<close>,
  the flag of a flow is set if and only if it was set before, or the segment belongs to
  the flow and carries FIN and ACK while \<open>ExpTTL\<close> is positive: so the flag goes from
  false to true on the first such segment. On that packet the timer is armed with
  \<open>ExpTTL\<close>; on every other packet of the flow (the flag already set, \<open>ExpTTL\<close> not positive,
  FIN or ACK missing) it is armed with the idle timeout, and never with \<open>ExpTTL\<close>. A
  flag once set stays set whatever packets follow, so there is at most one transition.
\<close>

theorem done_once_at_first_fin_ack:
  assumes "tcp_over_ipv4 p"
  shows "(done_flag (fst (handlePacket est d p)) k
            \<longleftrightarrow> done_flag d k
                \<or> (k = flow_key d p \<and> 0 < sint (ExpTTL d) \<and> ACK (tcp p) \<and> FIN (tcp p)))
     \<and> timer (fst (handlePacket est d p)) (flow_key d p)
           = Some (if 0 < sint (ExpTTL d) \<and> ACK (tcp p) \<and> FIN (tcp p)
                      \<and> \<not> done_flag d (flow_key d p)
                   then expTTL d else idle d)
     \<and> (done_flag d k \<longrightarrow> done_flag (fst (SniffLive est d qs)) k)"
  using handlePacket_single_done_timer [OF assms] SniffLive_done_mono by blast

theorem done_once_at_first_fin_ack_witness:
  "tcp_over_ipv4 ex_fin \<and> FIN (tcp ex_fin) \<and> ACK (tcp ex_fin) \<and> 0 < sint (ExpTTL ex_after_ack)
   \<and> \<not> done_flag ex_after_ack ex_key
   \<and> done_flag (fst (handlePacket ex_est ex_after_ack ex_fin)) ex_key
   \<and> timer (fst (handlePacket ex_est ex_after_ack ex_fin)) ex_key = Some 60000000000
   \<and> done_flag (fst (SniffLive ex_est (fst (handlePacket ex_est ex_after_ack ex_fin))
                        [ex_last_ack, ex_fin])) ex_key"
proof -
  have a: "done_flag (fst (handlePacket ex_est ex_after_ack ex_fin)) ex_key
      \<and> timer (fst (handlePacket ex_est ex_after_ack ex_fin)) ex_key = Some 60000000000"
    using done_once_at_first_fin_ack [OF ex_fin_facts(1), of ex_est ex_after_ack ex_key]
    by (simp add: ex_fin_facts ex_after_ack_config ex_after_ack_not_done expTTL_def)
  then have "done_flag (fst (SniffLive ex_est (fst (handlePacket ex_est ex_after_ack ex_fin))
                        [ex_last_ack, ex_fin])) ex_key"
    using done_once_at_first_fin_ack [OF ex_fin_facts(1),
            of ex_est "fst (handlePacket ex_est ex_after_ack ex_fin)" ex_key
               "[ex_last_ack, ex_fin]"]
    by blast
  then show ?thesis
    using a by (simp add: ex_fin_facts ex_after_ack_config ex_after_ack_not_done)
qed

text \<open>
  C7 (no packet halts the processing of the packets after it). The code on a segment from
  the peer whose timestamp option carries no data: \<open>GetTimestamps\<close> slices
  \<open>OptionData[4:]\<close> of an empty slice and panics, \<open>handlePacket\<close> does not return, and
  the sniffing loop, which has no \<open>recover\<close>, ends there: the data segment and the
  acknowledgment that follow are never processed.
\<close>

theorem short_timestamp_option_panics:
  "\<not> decode_err ex_malformed
   \<and> Options (tcp ex_malformed)
       = [\<lparr>OptionType = 8, OptionLength = 2, OptionData = []\<rparr>, nop_option, nop_option]
   \<and> snd (handlePacket ex_est ex_sniffer ex_malformed) = Panic
   \<and> snd (SniffLive ex_est ex_sniffer [ex_malformed, ex_out, ex_ack]) = False
   \<and> sample_count (fst (SniffLive ex_est ex_sniffer [ex_malformed, ex_out, ex_ack])) ex_key = 0"
proof -
  have p: "snd (handlePacket ex_est ex_sniffer ex_malformed) = Panic"
    by (rule handlePacket_single_panic) (simp_all add: ex_malformed_facts)
  have f: "flows (fst (handlePacket ex_est ex_sniffer ex_malformed)) (flow_key ex_sniffer ex_malformed)
      = Some (fst (correlate ex_est ex_sniffer ex_malformed
               (fin_ack ex_sniffer ex_malformed (get_flow ex_est ex_sniffer ex_malformed))))"
    by (rule handlePacket_single_flow) (rule ex_malformed_facts)
  have k: "flow_key ex_sniffer ex_malformed = ex_key"
    by (simp add: ex_malformed_def ex_inbound_key)
  have "Sampled (fst (correlate ex_est ex_sniffer ex_malformed
               (fin_ack ex_sniffer ex_malformed (get_flow ex_est ex_sniffer ex_malformed)))) = 0"
    by (simp add: correlate_panic ex_malformed_facts fin_ack_fields get_flow_new k ex_sniffer_def)
  then have s: "sample_count (fst (handlePacket ex_est ex_sniffer ex_malformed)) ex_key = 0"
    using f by (simp add: sample_count_def k)
  have "SniffLive ex_est ex_sniffer [ex_malformed, ex_out, ex_ack]
          = (fst (handlePacket ex_est ex_sniffer ex_malformed), False)"
    using p by (cases "handlePacket ex_est ex_sniffer ex_malformed") simp
  then show ?thesis
    using p s by (simp add: ex_malformed_def ex_inbound_def)
qed

text \<open>
  C10. The payload size is computed modulo \<open>2^32\<close>. For a TCP segment over IPv4 from the
  monitored host whose header-length fields (each below 16, as four-bit fields are)
  announce more bytes than the IPv4 total length, the difference wraps to
  \<open>2^32 + Length - 4 * (IHL + DataOffset)\<close>, which is positive, and the segment is taken
  as outbound data: when \<open>GetTimestamps\<close> returns, \<open>pendingSends\<close> holds the capture
  timestamp under \<open>(ts, Seq)\<close> afterwards.
\<close>

theorem short_total_length_counts_as_data:
  assumes "tcp_over_ipv4 p" and "ourIP d p"
    and "unat (IHL (ip4 p)) \<le> 15" and "unat (DataOffset (tcp p)) \<le> 15"
    and "unat (Length (ip4 p)) < 4 * (unat (IHL (ip4 p)) + unat (DataOffset (tcp p)))"
    and "GetTimestamps (tcp p) = Some (ts, tsecr, e)"
  shows "unat (tcp_payload_sz p)
           = 2 ^ 32 + unat (Length (ip4 p)) - 4 * (unat (IHL (ip4 p)) + unat (DataOffset (tcp p)))
     \<and> 0 < tcp_payload_sz p
     \<and> pendingSends (fst (handlePacket est d p)) (flow_key d p) (ts, Seq (tcp p))
         = Some (Timestamp p)"
proof -
  have h: "unat ((IHL (ip4 p) + DataOffset (tcp p)) * 4)
             = 4 * (unat (IHL (ip4 p)) + unat (DataOffset (tcp p)))"
    using assms(3,4) by (rule header_length)
  have w: "unat (Length (ip4 p)) < unat ((IHL (ip4 p) + DataOffset (tcp p)) * 4)"
    using assms(5) h by simp
  have "0 < tcp_payload_sz p" using w by (rule payload_size_wraps)
  then show ?thesis
    using payload_size_wraps(1) [OF w] h outbound_data_seeds [OF assms(1,2) _ assms(6)]
    by simp
qed

theorem short_total_length_counts_as_data_witness:
  "tcp_over_ipv4 ex_wrapped \<and> ourIP ex_sniffer ex_wrapped
   \<and> unat (Length (ip4 ex_wrapped)) = 40
   \<and> 4 * (unat (IHL (ip4 ex_wrapped)) + unat (DataOffset (tcp ex_wrapped))) = 80
   \<and> GetTimestamps (tcp ex_wrapped) = Some (130, 9, False)
   \<and> tcp_payload_sz ex_wrapped = 4294967256
   \<and> pendingSends (fst (handlePacket ex_est ex_sniffer ex_wrapped)) ex_key (130, 3000)
       = Some 3000000"
proof -
  have h3: "unat (IHL (ip4 ex_wrapped)) \<le> 15" and h4: "unat (DataOffset (tcp ex_wrapped)) \<le> 15"
    and h5: "unat (Length (ip4 ex_wrapped))
               < 4 * (unat (IHL (ip4 ex_wrapped)) + unat (DataOffset (tcp ex_wrapped)))"
    by (simp_all add: ex_wrapped_facts)
  have "tcp_payload_sz ex_wrapped = 4294967256"
    by (simp add: tcp_payload_sz_def ex_wrapped_facts)
  then show ?thesis
    using short_total_length_counts_as_data
            [OF ex_wrapped_facts(1) ex_wrapped_facts(2) h3 h4 h5 ex_wrapped_facts(4), of ex_est]
    by (simp add: ex_wrapped_facts)
qed



text \<open>
  C9 (as stated: the table lock is free whenever statistics are computed or metrics are
  submitted, and is released before a record lock is taken). The tick of \<open>Report\<close> over a
  table with one sampled flow: the record lock is taken, the statistics are read and the
  three metrics are submitted between \<open>r.flows.Lock()\<close> and \<open>r.flows.Unlock()\<close>; the table
  lock is held when the record is locked and when its statistics are computed.
\<close>

theorem table_lock_held_while_reporting:
  "ex_tick = [TableLock, RecordLock ex_key] @ ComputeStats ex_key
       # [Submit ex_key ''system.net.tcp.rtt.avg'', Submit ex_key ''system.net.tcp.rtt.jitter'',
          Submit ex_key ''system.net.tcp.rtt'', RecordUnlock ex_key, TableUnlock]
   \<and> table_held [TableLock, RecordLock ex_key]
   \<and> table_held [TableLock]"
  by (simp add: ex_tick_def Report_tick_def report_flow_def ex_record_def table_held_def)

text \<open>
  C9, amended. In the tick of the reporting loop the table lock is taken first and held
  for the whole scan: every record lock is taken and released, every flow's statistics
  are computed, every metric is submitted and every flush is done while the table lock
  is held; the table lock is released only at the end, after the last record was
  unlocked.
\<close>

theorem table_lock_spans_the_scan:
  assumes "Report_tick flush now ival lf table = pre @ e # post" and "record_work e"
  shows "table_held pre \<and> \<not> table_held (Report_tick flush now ival lf table)"
proof -
  let ?body = "concat (map (report_flow flush now ival lf) table)"
  have "TableLock # ?body @ [TableUnlock] = pre @ e # post"
    using assms(1) by (simp add: Report_tick_def)
  then have "table_held pre"
    using report_flows_work assms(2) by (rule locked_scan)
  moreover have "\<not> table_held (Report_tick flush now ival lf table)"
    by (simp add: Report_tick_def table_held_def table_held_from_append)
  ultimately show ?thesis by simp
qed

theorem table_lock_spans_the_scan_witness:
  "ex_tick = [TableLock, RecordLock ex_key] @ ComputeStats ex_key
       # [Submit ex_key ''system.net.tcp.rtt.avg'', Submit ex_key ''system.net.tcp.rtt.jitter'',
          Submit ex_key ''system.net.tcp.rtt'', RecordUnlock ex_key, TableUnlock]
   \<and> record_work (ComputeStats ex_key)
   \<and> table_held [TableLock, RecordLock ex_key] \<and> \<not> table_held ex_tick"
proof -
  have h: "Report_tick False 1700000030 3600 (\<lambda>k. 1700000000) [(ex_key, ex_record)]
     = [TableLock, RecordLock ex_key] @ ComputeStats ex_key
       # [Submit ex_key ''system.net.tcp.rtt.avg'', Submit ex_key ''system.net.tcp.rtt.jitter'',
          Submit ex_key ''system.net.tcp.rtt'', RecordUnlock ex_key, TableUnlock]"
    by (simp add: Report_tick_def report_flow_def ex_record_def)
  have w: "record_work (ComputeStats ex_key)" by simp
  show ?thesis
    using table_lock_spans_the_scan [OF h w] h w unfolding ex_tick_def by blast
qed

end
